theory Spec2Isabelle
  imports Complex_Main "HOL-Library.AList" "HOL-Library.List_Lexorder"
begin

section \<open>Data model\<close>

text \<open>
  The two scripts \<^verbatim>\<open>scripts/extract.py\<close> (pipeline A: points projected on axes) and
  \<^verbatim>\<open>scripts/measure.py\<close> (pipeline B: lines measured against scales) read a JSON
  document whose \<^verbatim>\<open>"annotations"\<close> entry is a list of dictionaries. The list is
  modelled as an \<open>item list\<close>.
\<close>

datatype error = ValueError | ZeroDivisionError | KeyError | TypeError | IndexError | OverflowError

text \<open>Sequencing of two steps, the second of which runs when the first did not raise.\<close>

definition ebind :: "error + 'a \<Rightarrow> ('a \<Rightarrow> error + 'b) \<Rightarrow> error + 'b" where
  "ebind m f = (case m of Inl e \<Rightarrow> Inl e | Inr x \<Rightarrow> f x)"

subsection \<open>Strings\<close>

text \<open>
  A Python \<^verbatim>\<open>str\<close> is a sequence of Unicode code points, here natural numbers.
  \<open>lit\<close> writes the string of an ASCII literal.
\<close>

type_synonym pystr = "nat list"

definition lit :: "string \<Rightarrow> pystr" where
  "lit s = map of_char s"

subsection \<open>Numbers\<close>

text \<open>
  A Python \<^verbatim>\<open>float\<close> is an IEEE 754 binary64 value: \<open>Fin x\<close> for the finite double
  whose value is the real \<open>x\<close>, the two infinities and \<^verbatim>\<open>nan\<close>. The sign of a zero is
  not represented; it would show only in the printed text of a zero.
\<close>

datatype pyfloat = Fin real | PInf | NInf | NaN

text \<open>The nearest integer, a tie going to the even one.\<close>

definition round_even :: "real \<Rightarrow> int" where
  "round_even r =
     (let f = \<lfloor>r\<rfloor>; d = r - of_int f
      in if d < 1 / 2 then f else if 1 / 2 < d then f + 1 else if even f then f else f + 1)"

text \<open>
  Rounding of a real to binary64, to nearest and ties to even: 53 significant bits, the
  exponent of the leading bit not below \<open>-1022\<close> (below it the spacing stays
  \<open>2 powi -1074\<close>), and an infinity when the rounded value reaches \<open>2 ^ 1024\<close>.
\<close>

definition rnd :: "real \<Rightarrow> pyfloat" where
  "rnd x =
     (if x = 0 then Fin 0
      else let e = max \<lfloor>log 2 \<bar>x\<bar>\<rfloor> (- 1022);
               q = 2 powi (e - 52);
               y = of_int (round_even (x / q)) * q
           in if 2 ^ 1024 \<le> \<bar>y\<bar> then (if 0 < x then PInf else NInf) else Fin y)"

text \<open>
  The float operations \<^verbatim>\<open>-x\<close>, \<^verbatim>\<open>x + y\<close>, \<^verbatim>\<open>x - y\<close>, \<^verbatim>\<open>x * y\<close>: the exact result
  rounded, with the rules of IEEE 754 for the infinities and \<^verbatim>\<open>nan\<close>. None of them raises.
\<close>

fun fneg :: "pyfloat \<Rightarrow> pyfloat" where
  "fneg (Fin x) = Fin (- x)"
| "fneg PInf = NInf"
| "fneg NInf = PInf"
| "fneg NaN = NaN"

fun fadd :: "pyfloat \<Rightarrow> pyfloat \<Rightarrow> pyfloat" where
  "fadd (Fin x) (Fin y) = rnd (x + y)"
| "fadd NaN y = NaN"
| "fadd x NaN = NaN"
| "fadd PInf NInf = NaN"
| "fadd NInf PInf = NaN"
| "fadd PInf y = PInf"
| "fadd x PInf = PInf"
| "fadd NInf y = NInf"
| "fadd x NInf = NInf"

definition fsub :: "pyfloat \<Rightarrow> pyfloat \<Rightarrow> pyfloat" where
  "fsub x y = fadd x (fneg y)"

fun is_neg :: "pyfloat \<Rightarrow> bool" where
  "is_neg (Fin x) = (x < 0)"
| "is_neg NInf = True"
| "is_neg PInf = False"
| "is_neg NaN = False"

fun fmul :: "pyfloat \<Rightarrow> pyfloat \<Rightarrow> pyfloat" where
  "fmul (Fin x) (Fin y) = rnd (x * y)"
| "fmul NaN y = NaN"
| "fmul x NaN = NaN"
| "fmul x y = (if x = Fin 0 \<or> y = Fin 0 then NaN else if is_neg x = is_neg y then PInf else NInf)"

text \<open>
  \<^verbatim>\<open>x / y\<close> on floats: Python raises \<^verbatim>\<open>ZeroDivisionError\<close> when \<open>y\<close> is a zero,
  whatever \<open>x\<close> is, and otherwise returns the quotient of IEEE 754.
\<close>

fun fquot :: "pyfloat \<Rightarrow> pyfloat \<Rightarrow> pyfloat" where
  "fquot (Fin x) (Fin y) = rnd (x / y)"
| "fquot NaN y = NaN"
| "fquot x NaN = NaN"
| "fquot (Fin x) y = Fin 0"
| "fquot x (Fin y) = (if is_neg x = (y < 0) then PInf else NInf)"
| "fquot x y = NaN"

definition fdiv :: "pyfloat \<Rightarrow> pyfloat \<Rightarrow> error + pyfloat" where
  "fdiv x y = (if y = Fin 0 then Inl ZeroDivisionError else Inr (fquot x y))"

text \<open>
  The functions of the C library that Python calls, read as correctly rounded:
  \<^verbatim>\<open>x ** 2\<close> (the \<^verbatim>\<open>pow\<close> of the library) and \<^verbatim>\<open>math.exp\<close>, which raise
  \<^verbatim>\<open>OverflowError\<close> when a finite argument gives a result out of range;
  \<^verbatim>\<open>math.sqrt\<close> and \<^verbatim>\<open>math.log\<close>, which raise \<^verbatim>\<open>ValueError\<close> outside their domain.
\<close>

fun fpow2 :: "pyfloat \<Rightarrow> error + pyfloat" where
  "fpow2 (Fin x) = (case rnd (x * x) of Fin y \<Rightarrow> Inr (Fin y) | _ \<Rightarrow> Inl OverflowError)"
| "fpow2 NaN = Inr NaN"
| "fpow2 PInf = Inr PInf"
| "fpow2 NInf = Inr PInf"

fun math_sqrt :: "pyfloat \<Rightarrow> error + pyfloat" where
  "math_sqrt (Fin x) = (if x < 0 then Inl ValueError else Inr (rnd (sqrt x)))"
| "math_sqrt PInf = Inr PInf"
| "math_sqrt NInf = Inl ValueError"
| "math_sqrt NaN = Inr NaN"

fun math_log :: "pyfloat \<Rightarrow> error + pyfloat" where
  "math_log (Fin x) = (if x \<le> 0 then Inl ValueError else Inr (rnd (ln x)))"
| "math_log PInf = Inr PInf"
| "math_log NInf = Inl ValueError"
| "math_log NaN = Inr NaN"

fun math_exp :: "pyfloat \<Rightarrow> error + pyfloat" where
  "math_exp (Fin x) = (case rnd (exp x) of Fin y \<Rightarrow> Inr (Fin y) | _ \<Rightarrow> Inl OverflowError)"
| "math_exp PInf = Inr PInf"
| "math_exp NInf = Inr (Fin 0)"
| "math_exp NaN = Inr NaN"

text \<open>
  A JSON number is a Python \<^verbatim>\<open>int\<close> when it is written as an integer and a \<^verbatim>\<open>float\<close>
  otherwise. Integers are unbounded and their arithmetic is exact; an operation with a
  float operand converts the integer, rounding it, and the conversion raises
  \<^verbatim>\<open>OverflowError\<close> when the integer is out of the range of the floats.
\<close>

datatype num = PyInt int | PyFloat pyfloat

fun to_float :: "num \<Rightarrow> error + pyfloat" where
  "to_float (PyInt n) = (case rnd (of_int n) of Fin y \<Rightarrow> Inr (Fin y) | _ \<Rightarrow> Inl OverflowError)"
| "to_float (PyFloat x) = Inr x"

fun num_add :: "num \<Rightarrow> num \<Rightarrow> error + num" where
  "num_add (PyInt m) (PyInt n) = Inr (PyInt (m + n))"
| "num_add a b = ebind (to_float a) (\<lambda>x. ebind (to_float b) (\<lambda>y. Inr (PyFloat (fadd x y))))"

fun num_sub :: "num \<Rightarrow> num \<Rightarrow> error + num" where
  "num_sub (PyInt m) (PyInt n) = Inr (PyInt (m - n))"
| "num_sub a b = ebind (to_float a) (\<lambda>x. ebind (to_float b) (\<lambda>y. Inr (PyFloat (fsub x y))))"

fun num_mul :: "num \<Rightarrow> num \<Rightarrow> error + num" where
  "num_mul (PyInt m) (PyInt n) = Inr (PyInt (m * n))"
| "num_mul a b = ebind (to_float a) (\<lambda>x. ebind (to_float b) (\<lambda>y. Inr (PyFloat (fmul x y))))"

text \<open>\<^verbatim>\<open>a ** 2\<close>.\<close>

fun num_pow2 :: "num \<Rightarrow> error + num" where
  "num_pow2 (PyInt n) = Inr (PyInt (n * n))"
| "num_pow2 (PyFloat x) = ebind (fpow2 x) (\<lambda>y. Inr (PyFloat y))"

text \<open>\<^verbatim>\<open>math.sqrt(a)\<close>, and \<^verbatim>\<open>x * a\<close>, \<^verbatim>\<open>x / a\<close> for a float \<open>x\<close>.\<close>

definition math_sqrt_num :: "num \<Rightarrow> error + pyfloat" where
  "math_sqrt_num a = ebind (to_float a) math_sqrt"

definition fmul_num :: "pyfloat \<Rightarrow> num \<Rightarrow> error + pyfloat" where
  "fmul_num x a = ebind (to_float a) (\<lambda>y. Inr (fmul x y))"

definition fdiv_num :: "pyfloat \<Rightarrow> num \<Rightarrow> error + pyfloat" where
  "fdiv_num x a = ebind (to_float a) (\<lambda>y. fdiv x y)"

subsection \<open>Annotations, columns, written text\<close>

type_synonym vec = "num \<times> num"

text \<open>
  The \<^verbatim>\<open>"coords"\<close> entry: \<^verbatim>\<open>[x, y]\<close> for a point annotation,
  \<^verbatim>\<open>[[x0, y0], [x1, y1]]\<close> for a line annotation.
\<close>

datatype coords = PointC num num | LineC vec vec

text \<open>
  One annotation dictionary. \<^verbatim>\<open>"tags"\<close> is the one key that may be absent (\<open>None\<close>).
\<close>

record item =
  it_type :: pystr
  it_name :: pystr
  it_coords :: coords
  it_tags :: "pystr list option"

text \<open>A column set: a Python \<^verbatim>\<open>dict\<close> from a name to a list, in insertion order.\<close>

type_synonym col = "(pystr \<times> pyfloat list) list"

text \<open>
  Written text. The decimal text Python prints for a float (\<^verbatim>\<open>repr(v)\<close> in
  \<^verbatim>\<open>extract.py\<close>, \<^verbatim>\<open>str(v)\<close> in \<^verbatim>\<open>measure.py\<close>) is kept as one symbol \<open>Num v\<close>;
  every other character of the output is a \<open>Ch\<close>.
\<close>

datatype sym = Ch nat | Num pyfloat

definition chars :: "pystr \<Rightarrow> sym list" where
  "chars s = map Ch s"

section \<open>The regular expressions and \<^verbatim>\<open>float\<close>\<close>

subsection \<open>Character classes\<close>

text \<open>
  The classes of Python's \<^verbatim>\<open>re\<close> on \<^verbatim>\<open>str\<close> patterns follow the Unicode database:
  \<^verbatim>\<open>\d\<close> is every decimal digit, \<^verbatim>\<open>\w\<close> every alphanumeric code point and the
  underscore, \<^verbatim>\<open>\s\<close> the whitespace of \<^verbatim>\<open>str.isspace\<close>. The two tables below are those
  of Unicode 14.0 (CPython 3.11) above the ASCII range; a decimal digit is alphanumeric,
  and the digits of a script are ten consecutive code points from its zero.
\<close>

definition in_ranges :: "nat \<Rightarrow> (nat \<times> nat) list \<Rightarrow> bool" where
  "in_ranges c rs = list_ex (\<lambda>(lo, hi). lo \<le> c \<and> c \<le> hi) rs"

definition unicode_decimal :: "(nat \<times> nat) list" where
  "unicode_decimal =
     [(1632, 1641), (1776, 1785), (1984, 1993), (2406, 2415), (2534, 2543), (2662, 2671),
      (2790, 2799), (2918, 2927), (3046, 3055), (3174, 3183), (3302, 3311), (3430, 3439),
      (3558, 3567), (3664, 3673), (3792, 3801), (3872, 3881), (4160, 4169), (4240, 4249),
      (6112, 6121), (6160, 6169), (6470, 6479), (6608, 6617), (6784, 6793), (6800, 6809),
      (6992, 7001), (7088, 7097), (7232, 7241), (7248, 7257), (42528, 42537), (43216, 43225),
      (43264, 43273), (43472, 43481), (43504, 43513), (43600, 43609), (44016, 44025), (65296, 65305),
      (66720, 66729), (68912, 68921), (69734, 69743), (69872, 69881), (69942, 69951), (70096, 70105),
      (70384, 70393), (70736, 70745), (70864, 70873), (71248, 71257), (71360, 71369), (71472, 71481),
      (71904, 71913), (72016, 72025), (72784, 72793), (73040, 73049), (73120, 73129), (92768, 92777),
      (92864, 92873), (93008, 93017), (120782, 120831), (123200, 123209), (123632, 123641), (125264, 125273),
      (130032, 130041)]"

definition unicode_alnum :: "(nat \<times> nat) list" where
  "unicode_alnum =
     [(170, 170), (178, 179), (181, 181), (185, 186), (188, 190), (192, 214),
      (216, 246), (248, 705), (710, 721), (736, 740), (748, 748), (750, 750),
      (880, 884), (886, 887), (890, 893), (895, 895), (902, 902), (904, 906),
      (908, 908), (910, 929), (931, 1013), (1015, 1153), (1162, 1327), (1329, 1366),
      (1369, 1369), (1376, 1416), (1488, 1514), (1519, 1522), (1568, 1610), (1632, 1641),
      (1646, 1647), (1649, 1747), (1749, 1749), (1765, 1766), (1774, 1788), (1791, 1791),
      (1808, 1808), (1810, 1839), (1869, 1957), (1969, 1969), (1984, 2026), (2036, 2037),
      (2042, 2042), (2048, 2069), (2074, 2074), (2084, 2084), (2088, 2088), (2112, 2136),
      (2144, 2154), (2160, 2183), (2185, 2190), (2208, 2249), (2308, 2361), (2365, 2365),
      (2384, 2384), (2392, 2401), (2406, 2415), (2417, 2432), (2437, 2444), (2447, 2448),
      (2451, 2472), (2474, 2480), (2482, 2482), (2486, 2489), (2493, 2493), (2510, 2510),
      (2524, 2525), (2527, 2529), (2534, 2545), (2548, 2553), (2556, 2556), (2565, 2570),
      (2575, 2576), (2579, 2600), (2602, 2608), (2610, 2611), (2613, 2614), (2616, 2617),
      (2649, 2652), (2654, 2654), (2662, 2671), (2674, 2676), (2693, 2701), (2703, 2705),
      (2707, 2728), (2730, 2736), (2738, 2739), (2741, 2745), (2749, 2749), (2768, 2768),
      (2784, 2785), (2790, 2799), (2809, 2809), (2821, 2828), (2831, 2832), (2835, 2856),
      (2858, 2864), (2866, 2867), (2869, 2873), (2877, 2877), (2908, 2909), (2911, 2913),
      (2918, 2927), (2929, 2935), (2947, 2947), (2949, 2954), (2958, 2960), (2962, 2965),
      (2969, 2970), (2972, 2972), (2974, 2975), (2979, 2980), (2984, 2986), (2990, 3001),
      (3024, 3024), (3046, 3058), (3077, 3084), (3086, 3088), (3090, 3112), (3114, 3129),
      (3133, 3133), (3160, 3162), (3165, 3165), (3168, 3169), (3174, 3183), (3192, 3198),
      (3200, 3200), (3205, 3212), (3214, 3216), (3218, 3240), (3242, 3251), (3253, 3257),
      (3261, 3261), (3293, 3294), (3296, 3297), (3302, 3311), (3313, 3314), (3332, 3340),
      (3342, 3344), (3346, 3386), (3389, 3389), (3406, 3406), (3412, 3414), (3416, 3425),
      (3430, 3448), (3450, 3455), (3461, 3478), (3482, 3505), (3507, 3515), (3517, 3517),
      (3520, 3526), (3558, 3567), (3585, 3632), (3634, 3635), (3648, 3654), (3664, 3673),
      (3713, 3714), (3716, 3716), (3718, 3722), (3724, 3747), (3749, 3749), (3751, 3760),
      (3762, 3763), (3773, 3773), (3776, 3780), (3782, 3782), (3792, 3801), (3804, 3807),
      (3840, 3840), (3872, 3891), (3904, 3911), (3913, 3948), (3976, 3980), (4096, 4138),
      (4159, 4169), (4176, 4181), (4186, 4189), (4193, 4193), (4197, 4198), (4206, 4208),
      (4213, 4225), (4238, 4238), (4240, 4249), (4256, 4293), (4295, 4295), (4301, 4301),
      (4304, 4346), (4348, 4680), (4682, 4685), (4688, 4694), (4696, 4696), (4698, 4701),
      (4704, 4744), (4746, 4749), (4752, 4784), (4786, 4789), (4792, 4798), (4800, 4800),
      (4802, 4805), (4808, 4822), (4824, 4880), (4882, 4885), (4888, 4954), (4969, 4988),
      (4992, 5007), (5024, 5109), (5112, 5117), (5121, 5740), (5743, 5759), (5761, 5786),
      (5792, 5866), (5870, 5880), (5888, 5905), (5919, 5937), (5952, 5969), (5984, 5996),
      (5998, 6000), (6016, 6067), (6103, 6103), (6108, 6108), (6112, 6121), (6128, 6137),
      (6160, 6169), (6176, 6264), (6272, 6276), (6279, 6312), (6314, 6314), (6320, 6389),
      (6400, 6430), (6470, 6509), (6512, 6516), (6528, 6571), (6576, 6601), (6608, 6618),
      (6656, 6678), (6688, 6740), (6784, 6793), (6800, 6809), (6823, 6823), (6917, 6963),
      (6981, 6988), (6992, 7001), (7043, 7072), (7086, 7141), (7168, 7203), (7232, 7241),
      (7245, 7293), (7296, 7304), (7312, 7354), (7357, 7359), (7401, 7404), (7406, 7411),
      (7413, 7414), (7418, 7418), (7424, 7615), (7680, 7957), (7960, 7965), (7968, 8005),
      (8008, 8013), (8016, 8023), (8025, 8025), (8027, 8027), (8029, 8029), (8031, 8061),
      (8064, 8116), (8118, 8124), (8126, 8126), (8130, 8132), (8134, 8140), (8144, 8147),
      (8150, 8155), (8160, 8172), (8178, 8180), (8182, 8188), (8304, 8305), (8308, 8313),
      (8319, 8329), (8336, 8348), (8450, 8450), (8455, 8455), (8458, 8467), (8469, 8469),
      (8473, 8477), (8484, 8484), (8486, 8486), (8488, 8488), (8490, 8493), (8495, 8505),
      (8508, 8511), (8517, 8521), (8526, 8526), (8528, 8585), (9312, 9371), (9450, 9471),
      (10102, 10131), (11264, 11492), (11499, 11502), (11506, 11507), (11517, 11517), (11520, 11557),
      (11559, 11559), (11565, 11565), (11568, 11623), (11631, 11631), (11648, 11670), (11680, 11686),
      (11688, 11694), (11696, 11702), (11704, 11710), (11712, 11718), (11720, 11726), (11728, 11734),
      (11736, 11742), (11823, 11823), (12293, 12295), (12321, 12329), (12337, 12341), (12344, 12348),
      (12353, 12438), (12445, 12447), (12449, 12538), (12540, 12543), (12549, 12591), (12593, 12686),
      (12690, 12693), (12704, 12735), (12784, 12799), (12832, 12841), (12872, 12879), (12881, 12895),
      (12928, 12937), (12977, 12991), (13312, 19903), (19968, 42124), (42192, 42237), (42240, 42508),
      (42512, 42539), (42560, 42606), (42623, 42653), (42656, 42735), (42775, 42783), (42786, 42888),
      (42891, 42954), (42960, 42961), (42963, 42963), (42965, 42969), (42994, 43009), (43011, 43013),
      (43015, 43018), (43020, 43042), (43056, 43061), (43072, 43123), (43138, 43187), (43216, 43225),
      (43250, 43255), (43259, 43259), (43261, 43262), (43264, 43301), (43312, 43334), (43360, 43388),
      (43396, 43442), (43471, 43481), (43488, 43492), (43494, 43518), (43520, 43560), (43584, 43586),
      (43588, 43595), (43600, 43609), (43616, 43638), (43642, 43642), (43646, 43695), (43697, 43697),
      (43701, 43702), (43705, 43709), (43712, 43712), (43714, 43714), (43739, 43741), (43744, 43754),
      (43762, 43764), (43777, 43782), (43785, 43790), (43793, 43798), (43808, 43814), (43816, 43822),
      (43824, 43866), (43868, 43881), (43888, 44002), (44016, 44025), (44032, 55203), (55216, 55238),
      (55243, 55291), (63744, 64109), (64112, 64217), (64256, 64262), (64275, 64279), (64285, 64285),
      (64287, 64296), (64298, 64310), (64312, 64316), (64318, 64318), (64320, 64321), (64323, 64324),
      (64326, 64433), (64467, 64829), (64848, 64911), (64914, 64967), (65008, 65019), (65136, 65140),
      (65142, 65276), (65296, 65305), (65313, 65338), (65345, 65370), (65382, 65470), (65474, 65479),
      (65482, 65487), (65490, 65495), (65498, 65500), (65536, 65547), (65549, 65574), (65576, 65594),
      (65596, 65597), (65599, 65613), (65616, 65629), (65664, 65786), (65799, 65843), (65856, 65912),
      (65930, 65931), (66176, 66204), (66208, 66256), (66273, 66299), (66304, 66339), (66349, 66378),
      (66384, 66421), (66432, 66461), (66464, 66499), (66504, 66511), (66513, 66517), (66560, 66717),
      (66720, 66729), (66736, 66771), (66776, 66811), (66816, 66855), (66864, 66915), (66928, 66938),
      (66940, 66954), (66956, 66962), (66964, 66965), (66967, 66977), (66979, 66993), (66995, 67001),
      (67003, 67004), (67072, 67382), (67392, 67413), (67424, 67431), (67456, 67461), (67463, 67504),
      (67506, 67514), (67584, 67589), (67592, 67592), (67594, 67637), (67639, 67640), (67644, 67644),
      (67647, 67669), (67672, 67702), (67705, 67742), (67751, 67759), (67808, 67826), (67828, 67829),
      (67835, 67867), (67872, 67897), (67968, 68023), (68028, 68047), (68050, 68096), (68112, 68115),
      (68117, 68119), (68121, 68149), (68160, 68168), (68192, 68222), (68224, 68255), (68288, 68295),
      (68297, 68324), (68331, 68335), (68352, 68405), (68416, 68437), (68440, 68466), (68472, 68497),
      (68521, 68527), (68608, 68680), (68736, 68786), (68800, 68850), (68858, 68899), (68912, 68921),
      (69216, 69246), (69248, 69289), (69296, 69297), (69376, 69415), (69424, 69445), (69457, 69460),
      (69488, 69505), (69552, 69579), (69600, 69622), (69635, 69687), (69714, 69743), (69745, 69746),
      (69749, 69749), (69763, 69807), (69840, 69864), (69872, 69881), (69891, 69926), (69942, 69951),
      (69956, 69956), (69959, 69959), (69968, 70002), (70006, 70006), (70019, 70066), (70081, 70084),
      (70096, 70106), (70108, 70108), (70113, 70132), (70144, 70161), (70163, 70187), (70272, 70278),
      (70280, 70280), (70282, 70285), (70287, 70301), (70303, 70312), (70320, 70366), (70384, 70393),
      (70405, 70412), (70415, 70416), (70419, 70440), (70442, 70448), (70450, 70451), (70453, 70457),
      (70461, 70461), (70480, 70480), (70493, 70497), (70656, 70708), (70727, 70730), (70736, 70745),
      (70751, 70753), (70784, 70831), (70852, 70853), (70855, 70855), (70864, 70873), (71040, 71086),
      (71128, 71131), (71168, 71215), (71236, 71236), (71248, 71257), (71296, 71338), (71352, 71352),
      (71360, 71369), (71424, 71450), (71472, 71483), (71488, 71494), (71680, 71723), (71840, 71922),
      (71935, 71942), (71945, 71945), (71948, 71955), (71957, 71958), (71960, 71983), (71999, 71999),
      (72001, 72001), (72016, 72025), (72096, 72103), (72106, 72144), (72161, 72161), (72163, 72163),
      (72192, 72192), (72203, 72242), (72250, 72250), (72272, 72272), (72284, 72329), (72349, 72349),
      (72368, 72440), (72704, 72712), (72714, 72750), (72768, 72768), (72784, 72812), (72818, 72847),
      (72960, 72966), (72968, 72969), (72971, 73008), (73030, 73030), (73040, 73049), (73056, 73061),
      (73063, 73064), (73066, 73097), (73112, 73112), (73120, 73129), (73440, 73458), (73648, 73648),
      (73664, 73684), (73728, 74649), (74752, 74862), (74880, 75075), (77712, 77808), (77824, 78894),
      (82944, 83526), (92160, 92728), (92736, 92766), (92768, 92777), (92784, 92862), (92864, 92873),
      (92880, 92909), (92928, 92975), (92992, 92995), (93008, 93017), (93019, 93025), (93027, 93047),
      (93053, 93071), (93760, 93846), (93952, 94026), (94032, 94032), (94099, 94111), (94176, 94177),
      (94179, 94179), (94208, 100343), (100352, 101589), (101632, 101640), (110576, 110579), (110581, 110587),
      (110589, 110590), (110592, 110882), (110928, 110930), (110948, 110951), (110960, 111355), (113664, 113770),
      (113776, 113788), (113792, 113800), (113808, 113817), (119520, 119539), (119648, 119672), (119808, 119892),
      (119894, 119964), (119966, 119967), (119970, 119970), (119973, 119974), (119977, 119980), (119982, 119993),
      (119995, 119995), (119997, 120003), (120005, 120069), (120071, 120074), (120077, 120084), (120086, 120092),
      (120094, 120121), (120123, 120126), (120128, 120132), (120134, 120134), (120138, 120144), (120146, 120485),
      (120488, 120512), (120514, 120538), (120540, 120570), (120572, 120596), (120598, 120628), (120630, 120654),
      (120656, 120686), (120688, 120712), (120714, 120744), (120746, 120770), (120772, 120779), (120782, 120831),
      (122624, 122654), (123136, 123180), (123191, 123197), (123200, 123209), (123214, 123214), (123536, 123565),
      (123584, 123627), (123632, 123641), (124896, 124902), (124904, 124907), (124909, 124910), (124912, 124926),
      (124928, 125124), (125127, 125135), (125184, 125251), (125259, 125259), (125264, 125273), (126065, 126123),
      (126125, 126127), (126129, 126132), (126209, 126253), (126255, 126269), (126464, 126467), (126469, 126495),
      (126497, 126498), (126500, 126500), (126503, 126503), (126505, 126514), (126516, 126519), (126521, 126521),
      (126523, 126523), (126530, 126530), (126535, 126535), (126537, 126537), (126539, 126539), (126541, 126543),
      (126545, 126546), (126548, 126548), (126551, 126551), (126553, 126553), (126555, 126555), (126557, 126557),
      (126559, 126559), (126561, 126562), (126564, 126564), (126567, 126570), (126572, 126578), (126580, 126583),
      (126585, 126588), (126590, 126590), (126592, 126601), (126603, 126619), (126625, 126627), (126629, 126633),
      (126635, 126651), (127232, 127244), (130032, 130041), (131072, 173791), (173824, 177976), (177984, 178205),
      (178208, 183969), (183984, 191456), (194560, 195101), (196608, 201546)]"

definition re_d :: "nat \<Rightarrow> bool" where
  "re_d c = (if c < 128 then 48 \<le> c \<and> c \<le> 57 else in_ranges c unicode_decimal)"

definition re_w :: "nat \<Rightarrow> bool" where
  "re_w c =
     (if c < 128
      then (48 \<le> c \<and> c \<le> 57) \<or> (65 \<le> c \<and> c \<le> 90) \<or> c = 95 \<or> (97 \<le> c \<and> c \<le> 122)
      else in_ranges c unicode_alnum)"

definition re_s :: "nat \<Rightarrow> bool" where
  "re_s c =
     ((9 \<le> c \<and> c \<le> 13) \<or> (28 \<le> c \<and> c \<le> 32) \<or> c = 133 \<or> c = 160 \<or> c = 5760 \<or>
      (8192 \<le> c \<and> c \<le> 8202) \<or> c = 8232 \<or> c = 8233 \<or> c = 8239 \<or> c = 8287 \<or> c = 12288)"

text \<open>The class \<^verbatim>\<open>[\d.efg+-]\<close> of the numeric tokens.\<close>

definition re_num :: "nat \<Rightarrow> bool" where
  "re_num c = (re_d c \<or> c \<in> set (lit ''.efg+-''))"

subsection \<open>The two patterns\<close>

text \<open>
  \<^verbatim>\<open>r.match(s)\<close> for
  \<^verbatim>\<open>(?P<name>\w+):\s*(?P<a>[\d.efg+-]+)\s+(?P<b>[\d.efg+-]+)\s*(?P<islog>L?)\<close>,
  anchored at the start of \<open>s\<close> and not at its end. The result holds the groups
  \<open>name\<close>, \<open>a\<close>, \<open>b\<close>, \<open>islog\<close>; \<open>None\<close> is no match.

  Every quantifier is greedy and is followed by something its class excludes (the colon
  is not in \<^verbatim>\<open>\w\<close>, a numeric character is not whitespace, whitespace is not numeric)
  or by parts that match the empty string, so backtracking never finds a match that the
  longest runs miss: each group is the longest run of its class. The colon is the code
  point 58 and \<^verbatim>\<open>L\<close> is 76.
\<close>

definition axis_match :: "pystr \<Rightarrow> (pystr \<times> pystr \<times> pystr \<times> pystr) option" where
  "axis_match s =
     (let name = takeWhile re_w s; s1 = dropWhile re_w s
      in if name = [] then None
         else case s1 of
           [] \<Rightarrow> None
         | c # s2 \<Rightarrow>
             if c \<noteq> 58 then None
             else let s3 = dropWhile re_s s2;
                      a = takeWhile re_num s3; s4 = dropWhile re_num s3
                  in if a = [] then None
                     else let sp = takeWhile re_s s4; s5 = dropWhile re_s s4
                          in if sp = [] then None
                             else let b = takeWhile re_num s5; s6 = dropWhile re_num s5
                                  in if b = [] then None
                                     else let s7 = dropWhile re_s s6
                                          in Some (name, a, b,
                                                   (case s7 of [] \<Rightarrow> [] | d # _ \<Rightarrow>
                                                      if d = 76 then [76] else [])))"

text \<open>
  \<^verbatim>\<open>r.match(s)\<close> for \<^verbatim>\<open>(?P<name>\w+):\s*(?P<length>[\d.efg+-]+)\<close>: the groups
  \<open>name\<close> and \<open>length\<close>.
\<close>

definition scale_match :: "pystr \<Rightarrow> (pystr \<times> pystr) option" where
  "scale_match s =
     (let name = takeWhile re_w s; s1 = dropWhile re_w s
      in if name = [] then None
         else case s1 of
           [] \<Rightarrow> None
         | c # s2 \<Rightarrow>
             if c \<noteq> 58 then None
             else let len = takeWhile re_num (dropWhile re_s s2)
                  in if len = [] then None else Some (name, len))"

subsection \<open>float(...) on a numeric token\<close>

text \<open>
  \<^verbatim>\<open>float(s)\<close> for a string over the class \<^verbatim>\<open>[\d.efg+-]\<close>: an optional sign, digits
  (of any script) with at most one point and at least one digit, an optional exponent
  \<^verbatim>\<open>e\<close> with an optional sign and at least one digit, and nothing after; anything else
  is a \<^verbatim>\<open>ValueError\<close>. The other forms \<^verbatim>\<open>float\<close> accepts (surrounding whitespace,
  underscores, \<^verbatim>\<open>E\<close>, \<^verbatim>\<open>inf\<close>, \<^verbatim>\<open>nan\<close>) need a character outside the class.
  \<open>float_literal\<close> is the real number the decimal literal denotes, and \<^verbatim>\<open>float\<close>
  returns it rounded, an infinity when it is out of range. The code points used are
  \<^verbatim>\<open>+\<close> 43, \<^verbatim>\<open>-\<close> 45, \<^verbatim>\<open>.\<close> 46, \<^verbatim>\<open>0\<close> 48 and \<^verbatim>\<open>e\<close> 101.
\<close>

definition digit_val :: "nat \<Rightarrow> nat" where
  "digit_val c =
     (if c < 128 then c - 48
      else case find (\<lambda>(lo, hi). lo \<le> c \<and> c \<le> hi) unicode_decimal of
        None \<Rightarrow> 0
      | Some (lo, hi) \<Rightarrow> (c - lo) mod 10)"

definition digits_val :: "pystr \<Rightarrow> nat" where
  "digits_val ds = foldl (\<lambda>n c. 10 * n + digit_val c) 0 ds"

definition strip_sign :: "pystr \<Rightarrow> bool \<times> pystr" where
  "strip_sign s =
     (case s of
        [] \<Rightarrow> (False, [])
      | c # t \<Rightarrow> if c = 45 then (True, t) else if c = 43 then (False, t) else (False, s))"

definition float_exponent :: "pystr \<Rightarrow> int option" where
  "float_exponent s =
     (case s of
        [] \<Rightarrow> Some 0
      | c # t \<Rightarrow>
          if c \<noteq> 101 then None
          else let (neg, ds) = strip_sign t
               in if ds = [] \<or> \<not> list_all re_d ds then None
                  else Some (if neg then - int (digits_val ds) else int (digits_val ds)))"

definition float_literal :: "pystr \<Rightarrow> real option" where
  "float_literal s =
     (let (neg, s1) = strip_sign s;
          ip = takeWhile re_d s1; s2 = dropWhile re_d s1;
          (fp, s3) = (case s2 of
                        [] \<Rightarrow> ([], [])
                      | c # t \<Rightarrow> if c = 46 then (takeWhile re_d t, dropWhile re_d t)
                                 else ([], s2))
      in if ip = [] \<and> fp = [] then None
         else case float_exponent s3 of
           None \<Rightarrow> None
         | Some ex \<Rightarrow>
             (let m = real (digits_val (ip @ fp));
                  k = ex - int (length fp);
                  v = (if 0 \<le> k then m * 10 ^ nat k else m / 10 ^ nat (- k))
              in Some (if neg then - v else v)))"

definition float_py :: "pystr \<Rightarrow> error + pyfloat" where
  "float_py s = (case float_literal s of None \<Rightarrow> Inl ValueError | Some v \<Rightarrow> Inr (rnd v))"

section \<open>Pipeline A: \<^verbatim>\<open>scripts/extract.py\<close>\<close>

subsection \<open>class Axis\<close>

record Axis =
  ax_name :: pystr
  ax_r0 :: vec
  ax_r1 :: vec
  ax_islog :: bool
  ax_delta :: vec
  ax_l2 :: num
  ax_l :: pyfloat
  ax_a :: pyfloat
  ax_b :: pyfloat

text \<open>\<^verbatim>\<open>[q[0] - p[0], q[1] - p[1]]\<close>.\<close>

definition vec_sub :: "vec \<Rightarrow> vec \<Rightarrow> error + vec" where
  "vec_sub q p =
     ebind (num_sub (fst q) (fst p)) (\<lambda>d0.
     ebind (num_sub (snd q) (snd p)) (\<lambda>d1. Inr (d0, d1)))"

text \<open>\<^verbatim>\<open>(q[0] - p[0])**2 + (q[1] - p[1])**2\<close>.\<close>

definition sq_dist :: "vec \<Rightarrow> vec \<Rightarrow> error + num" where
  "sq_dist p q =
     ebind (num_sub (fst q) (fst p)) (\<lambda>e0.
     ebind (num_pow2 e0) (\<lambda>s0.
     ebind (num_sub (snd q) (snd p)) (\<lambda>e1.
     ebind (num_pow2 e1) (\<lambda>s1. num_add s0 s1))))"

text \<open>
  \<^verbatim>\<open>Axis.__init__(self, name, r0, r1, a, b, islog)\<close>; \<open>a\<close> and \<open>b\<close> are floats, the
  results of \<^verbatim>\<open>float(...)\<close>.
\<close>

definition Axis_init :: "pystr \<Rightarrow> vec \<Rightarrow> vec \<Rightarrow> pyfloat \<Rightarrow> pyfloat \<Rightarrow> bool \<Rightarrow> error + Axis" where
  "Axis_init name r0 r1 a b islog =
     ebind (vec_sub r1 r0) (\<lambda>delta.
     ebind (sq_dist r0 r1) (\<lambda>l2.
     ebind (math_sqrt_num l2) (\<lambda>l.
     ebind (if \<not> islog then Inr a else math_log a) (\<lambda>a'.
     ebind (if \<not> islog then Inr b else math_log b) (\<lambda>b'.
       Inr \<lparr>ax_name = name, ax_r0 = r0, ax_r1 = r1, ax_islog = islog,
            ax_delta = delta, ax_l2 = l2, ax_l = l, ax_a = a', ax_b = b'\<rparr>)))))"

subsection \<open>getaxes\<close>

text \<open>
  The body of the loop of \<^verbatim>\<open>getaxes\<close> for one annotation: \<open>Inr None\<close> when the
  annotation is skipped, \<open>Inr (Some ax)\<close> when an axis is appended. A line annotation
  whose \<^verbatim>\<open>"coords"\<close> is a point's \<^verbatim>\<open>[x, y]\<close> gives \<^verbatim>\<open>r1 = y\<close>, and \<^verbatim>\<open>r1[0]\<close> in
  \<^verbatim>\<open>Axis.__init__\<close> is a \<^verbatim>\<open>TypeError\<close>.
\<close>

definition getaxes_item :: "item \<Rightarrow> error + Axis option" where
  "getaxes_item it =
     (if it_type it \<noteq> lit ''line'' then Inr None
      else case axis_match (it_name it) of
        None \<Rightarrow> Inr None
      | Some (name, sa, sb, sl) \<Rightarrow>
          (case float_py sa of
             Inl e \<Rightarrow> Inl e
           | Inr a \<Rightarrow>
               (case float_py sb of
                  Inl e \<Rightarrow> Inl e
                | Inr b \<Rightarrow>
                    (case it_coords it of
                       PointC x y \<Rightarrow> Inl TypeError
                     | LineC r0 r1 \<Rightarrow>
                         (case Axis_init name r0 r1 a b (sl = lit ''L'') of
                            Inl e \<Rightarrow> Inl e
                          | Inr ax \<Rightarrow> Inr (Some ax))))))"

fun getaxes_loop :: "item list \<Rightarrow> Axis list \<Rightarrow> error + Axis list" where
  "getaxes_loop [] axes = Inr axes"
| "getaxes_loop (it # rest) axes =
     (case getaxes_item it of
        Inl e \<Rightarrow> Inl e
      | Inr None \<Rightarrow> getaxes_loop rest axes
      | Inr (Some ax) \<Rightarrow> getaxes_loop rest (axes @ [ax]))"

definition getaxes :: "item list \<Rightarrow> error + Axis list" where
  "getaxes data = getaxes_loop data []"

subsection \<open>extract\<close>

text \<open>\<^verbatim>\<open>{name : [] for name in names}\<close>: a repeated name is one key.\<close>

definition col_init :: "pystr list \<Rightarrow> col" where
  "col_init names = foldl (\<lambda>d n. AList.update n [] d) [] names"

text \<open>\<^verbatim>\<open>col[k].append(v)\<close>.\<close>

definition col_append :: "pystr \<Rightarrow> pyfloat \<Rightarrow> col \<Rightarrow> error + col" where
  "col_append k v col =
     (case map_of col k of
        None \<Rightarrow> Inl KeyError
      | Some vs \<Rightarrow> Inr (AList.update k (vs @ [v]) col))"

text \<open>
  The inner loop of both \<^verbatim>\<open>extract\<close> functions,
  \<^verbatim>\<open>for ax in axes: v = ...; col[ax.name].append(v)\<close>: \<open>nm\<close> reads the name of a
  calibration and \<open>f\<close> computes \<open>v\<close> from it; the first exception ends the loop.
\<close>

fun append_values :: "('c \<Rightarrow> pystr) \<Rightarrow> ('c \<Rightarrow> error + pyfloat) \<Rightarrow> 'c list \<Rightarrow> col \<Rightarrow> error + col" where
  "append_values nm f [] col = Inr col"
| "append_values nm f (c # cs) col =
     (case f c of
        Inl e \<Rightarrow> Inl e
      | Inr v \<Rightarrow>
          (case col_append (nm c) v col of
             Inl e \<Rightarrow> Inl e
           | Inr col' \<Rightarrow> append_values nm f cs col'))"

text \<open>
  \<^verbatim>\<open>tag and tag not in item["tags"]\<close>: \<^verbatim>\<open>None\<close> and the empty string are false, and
  then \<^verbatim>\<open>item["tags"]\<close> is not evaluated.
\<close>

definition tag_excluded :: "pystr option \<Rightarrow> item \<Rightarrow> error + bool" where
  "tag_excluded tag it =
     (case tag of
        None \<Rightarrow> Inr False
      | Some t \<Rightarrow>
          if t = [] then Inr False
          else (case it_tags it of
                  None \<Rightarrow> Inl KeyError
                | Some ts \<Rightarrow> Inr (t \<notin> set ts)))"

text \<open>
  \<^verbatim>\<open>(c[0] - ax.r0[0]) * ax.delta[0] + (c[1] - ax.r0[1]) * ax.delta[1]\<close>.
\<close>

definition dot_delta :: "Axis \<Rightarrow> num \<Rightarrow> num \<Rightarrow> error + num" where
  "dot_delta ax c0 c1 =
     ebind (num_sub c0 (fst (ax_r0 ax))) (\<lambda>t0.
     ebind (num_mul t0 (fst (ax_delta ax))) (\<lambda>p0.
     ebind (num_sub c1 (snd (ax_r0 ax))) (\<lambda>t1.
     ebind (num_mul t1 (snd (ax_delta ax))) (\<lambda>p1. num_add p0 p1))))"

text \<open>
  The value \<open>v\<close> of one point on one axis (the body of the inner loop of
  \<^verbatim>\<open>extract\<close>): \<^verbatim>\<open>ax.a + (ax.b - ax.a) * (...) / ax.l2\<close>, the product divided by
  \<^verbatim>\<open>ax.l2\<close>, and \<^verbatim>\<open>math.exp(v)\<close> on a logarithmic axis. A point annotation whose
  \<^verbatim>\<open>"coords"\<close> is a line's pair of points makes \<^verbatim>\<open>c[0] - ax.r0[0]\<close> a \<^verbatim>\<open>TypeError\<close>.
\<close>

definition project :: "Axis \<Rightarrow> coords \<Rightarrow> error + pyfloat" where
  "project ax c =
     (case c of
        LineC p q \<Rightarrow> Inl TypeError
      | PointC c0 c1 \<Rightarrow>
          ebind (dot_delta ax c0 c1) (\<lambda>d.
          ebind (fmul_num (fsub (ax_b ax) (ax_a ax)) d) (\<lambda>m.
          ebind (fdiv_num m (ax_l2 ax)) (\<lambda>q.
            let v = fadd (ax_a ax) q
            in if ax_islog ax then math_exp v else Inr v))))"

definition extract_axes :: "coords \<Rightarrow> Axis list \<Rightarrow> col \<Rightarrow> error + col" where
  "extract_axes c axes col = append_values ax_name (\<lambda>ax. project ax c) axes col"

fun extract_loop :: "item list \<Rightarrow> Axis list \<Rightarrow> pystr option \<Rightarrow> col \<Rightarrow> error + col" where
  "extract_loop [] axes tag col = Inr col"
| "extract_loop (it # rest) axes tag col =
     (if it_type it \<noteq> lit ''point'' then extract_loop rest axes tag col
      else case tag_excluded tag it of
        Inl e \<Rightarrow> Inl e
      | Inr True \<Rightarrow> extract_loop rest axes tag col
      | Inr False \<Rightarrow>
          (case extract_axes (it_coords it) axes col of
             Inl e \<Rightarrow> Inl e
           | Inr col' \<Rightarrow> extract_loop rest axes tag col'))"

text \<open>\<^verbatim>\<open>extract(data, axes, tag)\<close> of \<^verbatim>\<open>extract.py\<close>.\<close>

definition extract_A :: "item list \<Rightarrow> Axis list \<Rightarrow> pystr option \<Rightarrow> error + col" where
  "extract_A data axes tag = extract_loop data axes tag (col_init (map ax_name axes))"

subsection \<open>export and csv_sanitize\<close>

text \<open>
  \<^verbatim>\<open>csv_sanitize(s)\<close>, the same function in both scripts; the comma is the code point
  44 and the double quote is 34.
\<close>

definition csv_sanitize :: "pystr \<Rightarrow> pystr" where
  "csv_sanitize s = (if 44 \<in> set s then [34] @ s @ [34] else s)"

text \<open>\<^verbatim>\<open>sep.join(xs)\<close>.\<close>

fun join :: "'a list \<Rightarrow> 'a list list \<Rightarrow> 'a list" where
  "join sep [] = []"
| "join sep [x] = x"
| "join sep (x # y # ys) = x @ sep @ join sep (y # ys)"

text \<open>
  The cells \<^verbatim>\<open>repr(col[k][i]) for k in keys\<close> of one data row, evaluated in order.
\<close>

fun row_cells :: "col \<Rightarrow> nat \<Rightarrow> pystr list \<Rightarrow> error + sym list list" where
  "row_cells col i [] = Inr []"
| "row_cells col i (k # ks) =
     (case map_of col k of
        None \<Rightarrow> Inl KeyError
      | Some vs \<Rightarrow>
          if i < length vs
          then (case row_cells col i ks of
                  Inl e \<Rightarrow> Inl e
                | Inr cells \<Rightarrow> Inr ([Num (vs ! i)] # cells))
          else Inl IndexError)"

text \<open>
  The file \<^verbatim>\<open>fout\<close> is the text written so far. A function that writes returns the
  text after its writes and the exception that stopped it, if one did.
\<close>

fun export_A_rows :: "col \<Rightarrow> pystr list \<Rightarrow> nat list \<Rightarrow> sym list \<Rightarrow> sym list \<times> error option" where
  "export_A_rows col keys [] fout = (fout, None)"
| "export_A_rows col keys (i # is) fout =
     (case row_cells col i keys of
        Inl e \<Rightarrow> (fout, Some e)
      | Inr cells \<Rightarrow>
          export_A_rows col keys is (fout @ join (chars (lit '','')) cells @ chars (lit ''\<newline>'')))"

text \<open>\<^verbatim>\<open>export(fout, col)\<close> of \<^verbatim>\<open>extract.py\<close>.\<close>

definition export_A :: "sym list \<Rightarrow> col \<Rightarrow> sym list \<times> error option" where
  "export_A fout col =
     (let keys = sort (map fst col)
      in case keys of
        [] \<Rightarrow> (fout, None)
      | k0 # ks \<Rightarrow>
          (let fout1 = fout @ chars (join (lit '','') (map csv_sanitize keys) @ lit ''\<newline>'')
           in case map_of col k0 of
             None \<Rightarrow> (fout1, Some KeyError)
           | Some vs \<Rightarrow> export_A_rows col keys [0 ..< length vs] fout1))"

section \<open>Pipeline B: \<^verbatim>\<open>scripts/measure.py\<close>\<close>

subsection \<open>class Axis\<close>

record Axis_B =
  sc_name :: pystr
  sc_r0 :: vec
  sc_r1 :: vec
  sc_delta :: vec
  sc_l2 :: num
  sc_l :: pyfloat
  sc_physlen :: pyfloat
  sc_unitperpx :: pyfloat

text \<open>
  \<^verbatim>\<open>Axis.__init__(self, name, r0, r1, physlen)\<close> of \<^verbatim>\<open>measure.py\<close>. The last
  assignment divides by \<^verbatim>\<open>self.l\<close>.
\<close>

definition Axis_B_init :: "pystr \<Rightarrow> vec \<Rightarrow> vec \<Rightarrow> pyfloat \<Rightarrow> error + Axis_B" where
  "Axis_B_init name r0 r1 physlen =
     ebind (vec_sub r1 r0) (\<lambda>delta.
     ebind (sq_dist r0 r1) (\<lambda>l2.
     ebind (math_sqrt_num l2) (\<lambda>l.
     ebind (fdiv physlen l) (\<lambda>u.
       Inr \<lparr>sc_name = name, sc_r0 = r0, sc_r1 = r1, sc_delta = delta, sc_l2 = l2,
            sc_l = l, sc_physlen = physlen, sc_unitperpx = u\<rparr>))))"

subsection \<open>getscales\<close>

definition getscales_item :: "item \<Rightarrow> error + Axis_B option" where
  "getscales_item it =
     (if it_type it \<noteq> lit ''line'' then Inr None
      else case scale_match (it_name it) of
        None \<Rightarrow> Inr None
      | Some (name, slen) \<Rightarrow>
          (case float_py slen of
             Inl e \<Rightarrow> Inl e
           | Inr physlen \<Rightarrow>
               (case it_coords it of
                  PointC x y \<Rightarrow> Inl TypeError
                | LineC r0 r1 \<Rightarrow>
                    (case Axis_B_init name r0 r1 physlen of
                       Inl e \<Rightarrow> Inl e
                     | Inr sc \<Rightarrow> Inr (Some sc)))))"

fun getscales_loop :: "item list \<Rightarrow> Axis_B list \<Rightarrow> error + Axis_B list" where
  "getscales_loop [] axes = Inr axes"
| "getscales_loop (it # rest) axes =
     (case getscales_item it of
        Inl e \<Rightarrow> Inl e
      | Inr None \<Rightarrow> getscales_loop rest axes
      | Inr (Some sc) \<Rightarrow> getscales_loop rest (axes @ [sc]))"

definition getscales :: "item list \<Rightarrow> error + Axis_B list" where
  "getscales data = getscales_loop data []"

subsection \<open>extract\<close>

text \<open>
  The value \<open>v\<close> of one line on one scale (the body of the inner loop),
  \<^verbatim>\<open>math.sqrt((c[1][0] - c[0][0])**2 + (c[1][1] - c[0][1])**2) * sc.unitperpx\<close>. A line
  annotation whose \<^verbatim>\<open>"coords"\<close> is a point's \<^verbatim>\<open>[x, y]\<close> makes \<^verbatim>\<open>c[1][0]\<close> a
  \<^verbatim>\<open>TypeError\<close>.
\<close>

definition measure_line :: "Axis_B \<Rightarrow> coords \<Rightarrow> error + pyfloat" where
  "measure_line sc c =
     (case c of
        PointC x y \<Rightarrow> Inl TypeError
      | LineC c0 c1 \<Rightarrow>
          ebind (sq_dist c0 c1) (\<lambda>s.
          ebind (math_sqrt_num s) (\<lambda>r. Inr (fmul r (sc_unitperpx sc)))))"

definition extract_scales :: "coords \<Rightarrow> Axis_B list \<Rightarrow> col \<Rightarrow> error + col" where
  "extract_scales c scales col = append_values sc_name (\<lambda>sc. measure_line sc c) scales col"

fun extract_B_loop ::
  "item list \<Rightarrow> Axis_B list \<Rightarrow> pystr option \<Rightarrow> pystr list \<Rightarrow> col \<Rightarrow> error + pystr list \<times> col" where
  "extract_B_loop [] scales tag names col = Inr (names, col)"
| "extract_B_loop (it # rest) scales tag names col =
     (if it_type it \<noteq> lit ''line'' then extract_B_loop rest scales tag names col
      else case tag_excluded tag it of
        Inl e \<Rightarrow> Inl e
      | Inr True \<Rightarrow> extract_B_loop rest scales tag names col
      | Inr False \<Rightarrow>
          (case extract_scales (it_coords it) scales col of
             Inl e \<Rightarrow> Inl e
           | Inr col' \<Rightarrow> extract_B_loop rest scales tag (names @ [it_name it]) col'))"

text \<open>\<^verbatim>\<open>extract(data, scales, tag)\<close> of \<^verbatim>\<open>measure.py\<close>.\<close>

definition extract_B ::
  "item list \<Rightarrow> Axis_B list \<Rightarrow> pystr option \<Rightarrow> error + pystr list \<times> col" where
  "extract_B data scales tag = extract_B_loop data scales tag [] (col_init (map sc_name scales))"

subsection \<open>export\<close>

fun export_B_rows ::
  "pystr list \<Rightarrow> col \<Rightarrow> pystr list \<Rightarrow> nat list \<Rightarrow> sym list \<Rightarrow> sym list \<times> error option" where
  "export_B_rows names col keys [] fout = (fout, None)"
| "export_B_rows names col keys (i # is) fout =
     (if i < length names
      then (case row_cells col i keys of
              Inl e \<Rightarrow> (fout, Some e)
            | Inr cells \<Rightarrow>
                export_B_rows names col keys is
                  (fout @ chars (names ! i) @ chars (lit '','') @ join (chars (lit '','')) cells @
                   chars (lit ''\<newline>'')))
      else (fout, Some IndexError))"

text \<open>\<^verbatim>\<open>export(fout, names, col)\<close> of \<^verbatim>\<open>measure.py\<close>.\<close>

definition export_B :: "sym list \<Rightarrow> pystr list \<Rightarrow> col \<Rightarrow> sym list \<times> error option" where
  "export_B fout names col =
     (let keys = sort (map fst col)
      in case keys of
        [] \<Rightarrow> (fout, None)
      | k0 # ks \<Rightarrow>
          (let fout1 = fout @ chars (lit ''name'' @ lit '','' @
                                     join (lit '','') (map csv_sanitize keys) @ lit ''\<newline>'')
           in case map_of col k0 of
             None \<Rightarrow> (fout1, Some KeyError)
           | Some vs \<Rightarrow> export_B_rows names col keys [0 ..< length vs] fout1))"

section \<open>Notions used to state the properties\<close>

text \<open>
  An annotation qualifies for a pass when its type is the one the pass reads and the
  tag filter lets it through.
\<close>

definition qualifies :: "pystr \<Rightarrow> pystr option \<Rightarrow> item \<Rightarrow> bool" where
  "qualifies ty tag it = (it_type it = ty \<and> tag_excluded tag it = Inr False)"

text \<open>
  What one annotation adds to the column \<open>k\<close>: the values of the calibrations named
  \<open>k\<close>, in the order of the calibrations.
\<close>

definition contrib :: "('c \<Rightarrow> pystr) \<Rightarrow> ('c \<Rightarrow> error + pyfloat) \<Rightarrow> pystr \<Rightarrow> 'c list \<Rightarrow> pyfloat list" where
  "contrib nm f k cs =
     concat (map (\<lambda>c. if nm c = k then (case f c of Inl e \<Rightarrow> [] | Inr v \<Rightarrow> [v]) else []) cs)"

text \<open>
  The calibration name a parser reads from an annotation: the group \<open>name\<close> of a line
  annotation whose name matches the grammar.
\<close>

definition axis_name_of :: "item \<Rightarrow> pystr option" where
  "axis_name_of it =
     (if it_type it = lit ''line'' then map_option fst (axis_match (it_name it)) else None)"

definition scale_name_of :: "item \<Rightarrow> pystr option" where
  "scale_name_of it =
     (if it_type it = lit ''line'' then map_option fst (scale_match (it_name it)) else None)"


text \<open>
  \<^verbatim>\<open>l2 == 0\<close>: the squared length of a calibration line can be computed and is the
  integer or the float zero. A line whose endpoints coincide and have finite coordinates
  is one.
\<close>

definition num_is_zero :: "num \<Rightarrow> bool" where
  "num_is_zero z = (z = PyInt 0 \<or> z = PyFloat (Fin 0))"

definition degenerate :: "vec \<Rightarrow> vec \<Rightarrow> bool" where
  "degenerate r0 r1 = (case sq_dist r0 r1 of Inl e \<Rightarrow> False | Inr z \<Rightarrow> num_is_zero z)"

fun finite_num :: "num \<Rightarrow> bool" where
  "finite_num (PyInt n) = True"
| "finite_num (PyFloat (Fin x)) = True"
| "finite_num (PyFloat y) = False"

definition finite_vec :: "vec \<Rightarrow> bool" where
  "finite_vec r = (finite_num (fst r) \<and> finite_num (snd r))"

text \<open>Annotations without the \<^verbatim>\<open>"tags"\<close> key, for the examples.\<close>

definition point_at :: "num \<Rightarrow> num \<Rightarrow> item" where
  "point_at x y = \<lparr>it_type = lit ''point'', it_name = [], it_coords = PointC x y, it_tags = None\<rparr>"

definition line_named :: "string \<Rightarrow> vec \<Rightarrow> vec \<Rightarrow> item" where
  "line_named n p q =
     \<lparr>it_type = lit ''line'', it_name = lit n, it_coords = LineC p q, it_tags = None\<rparr>"

section \<open>Rounding\<close>

lemma round_even_of_int: "round_even (of_int k) = k"
  by (simp add: round_even_def)

lemma floor_log2_eqI:
  assumes "2 powi e \<le> x" and "x < 2 powi (e + 1)"
  shows "\<lfloor>log 2 x\<rfloor> = e"
proof -
  have "0 < (2::real) powi e" by simp
  with assms(1) have pos: "0 < x" by linarith
  have a: "(2::real) powr real_of_int e = 2 powi e"
    by (simp add: powr_real_of_int')
  have b: "(2::real) powr (real_of_int e + 1) = 2 powi (e + 1)"
    using powr_real_of_int' [of 2 "e + 1"] by simp
  from assms have "2 powr (real_of_int e) \<le> x \<and> x < 2 powr (real_of_int e + 1)"
    by (simp only: a b)
  then show ?thesis
    using floor_log_eq_powr_iff [of x 2 e] pos by simp
qed

text \<open>
  The rounding of a real in the normal range, from the exponent \<open>e\<close> of its leading bit
  and the integer \<open>m\<close> its 53-bit significand rounds to.
\<close>

lemma rnd_normal:
  assumes "2 powi e \<le> \<bar>x\<bar>" and "\<bar>x\<bar> < 2 powi (e + 1)" and "- 1022 \<le> e"
    and "round_even (x / 2 powi (e - 52)) = m"
    and "\<bar>of_int m * 2 powi (e - 52)\<bar> < (2::real) ^ 1024"
  shows "rnd x = Fin (of_int m * 2 powi (e - 52))"
proof -
  have "0 < (2::real) powi e" by simp
  with assms(1) have "0 < \<bar>x\<bar>" by linarith
  then have nz: "x \<noteq> 0" by simp
  have fl: "\<lfloor>log 2 \<bar>x\<bar>\<rfloor> = e" using assms(1,2) by (rule floor_log2_eqI)
  with assms(3) have mx: "max \<lfloor>log 2 \<bar>x\<bar>\<rfloor> (- 1022) = e" by simp
  show ?thesis
    using nz assms(4,5) by (simp add: rnd_def mx Let_def)
qed

text \<open>A real that is a double rounds to itself.\<close>

lemma rnd_dyadic:
  assumes x: "x = of_int m * 2 powi k" and m: "\<bar>m\<bar> < 2 ^ 53" and k: "- 1074 \<le> k"
    and big: "\<bar>x\<bar> < 2 ^ 1024"
  shows "rnd x = Fin x"
proof (cases "x = 0")
  case True
  then show ?thesis by (simp add: rnd_def)
next
  case False
  define e where "e = max \<lfloor>log 2 \<bar>x\<bar>\<rfloor> (- 1022)"
  define j where "j = k - e + 52"
  have xpos: "0 < \<bar>x\<bar>" using False by simp
  have "\<bar>x\<bar> = real_of_int \<bar>m\<bar> * 2 powi k"
    by (simp add: x abs_mult)
  also have "\<dots> < 2 ^ 53 * 2 powi k"
  proof -
    from m have "real_of_int \<bar>m\<bar> < 2 ^ 53"
      by (metis of_int_less_numeral_power_cancel_iff)
    then show ?thesis by (simp add: mult_strict_right_mono)
  qed
  also have "\<dots> = 2 powi (k + 53)"
    by (simp add: power_int_add)
  finally have ub: "\<bar>x\<bar> < 2 powi (k + 53)" .
  have "\<lfloor>log 2 \<bar>x\<bar>\<rfloor> \<le> k + 52"
  proof -
    have "log 2 \<bar>x\<bar> < log 2 (2 powi (k + 53))"
      using ub xpos by (simp add: log_less_cancel_iff)
    also have "\<dots> = real_of_int (k + 53)"
      using powr_real_of_int' [of 2 "k + 53"] log_powr_cancel [of 2 "real_of_int (k + 53)"]
      by simp
    finally have "\<lfloor>log 2 \<bar>x\<bar>\<rfloor> < k + 53"
      by (simp add: floor_less_iff)
    then show ?thesis by simp
  qed
  with k have "e \<le> k + 52" by (simp add: e_def)
  then have j0: "0 \<le> j" by (simp add: j_def)
  have "x / 2 powi (e - 52) = of_int m * 2 powi (k - (e - 52))"
    by (simp add: x power_int_diff)
  also have "k - (e - 52) = j" by (simp add: j_def)
  also have "of_int m * (2::real) powi j = of_int (m * 2 ^ nat j)"
    using j0 by (simp add: power_int_nonneg_exp)
  finally have q: "x / 2 powi (e - 52) = of_int (m * 2 ^ nat j)" .
  have "of_int (round_even (x / 2 powi (e - 52))) * 2 powi (e - 52) =
          x / 2 powi (e - 52) * 2 powi (e - 52)"
    by (simp only: q round_even_of_int)
  also have "\<dots> = x" by simp
  finally have "of_int (round_even (x / 2 powi (e - 52))) * 2 powi (e - 52) = x" .
  with False big show ?thesis
    by (simp add: rnd_def e_def [symmetric] Let_def)
qed

lemma rnd_of_int: "\<bar>n\<bar> \<le> 2 ^ 53 \<Longrightarrow> rnd (of_int n) = Fin (of_int n)"
proof -
  assume a: "\<bar>n\<bar> \<le> 2 ^ 53"
  show ?thesis
  proof (cases "\<bar>n\<bar> = 2 ^ 53")
    case True
    then have n: "n = 2 ^ 53 \<or> n = - (2 ^ 53)" by linarith
    then have x: "(of_int n :: real) = of_int (n div 2 ^ 53) * 2 powi 53"
      by (auto simp: power_int_nonneg_exp)
    have m: "\<bar>n div 2 ^ 53\<bar> < 2 ^ 53"
      using n by auto
    have big: "\<bar>of_int n :: real\<bar> < 2 ^ 1024"
      using n by auto
    show ?thesis by (rule rnd_dyadic [OF x m _ big]) simp
  next
    case False
    with a have m: "\<bar>n\<bar> < 2 ^ 53" by simp
    have x: "(of_int n :: real) = of_int n * 2 powi 0" by simp
    have "\<bar>of_int n :: real\<bar> < 2 ^ 53"
      using m by (metis of_int_abs of_int_less_numeral_power_cancel_iff)
    also have "\<dots> < 2 ^ 1024" by simp
    finally have big: "\<bar>of_int n :: real\<bar> < 2 ^ 1024" .
    show ?thesis by (rule rnd_dyadic [OF x m _ big]) simp
  qed
qed

lemma rnd_0: "rnd 0 = Fin 0"
  by (simp add: rnd_def)

lemma rnd_1: "rnd 1 = Fin 1"
  using rnd_of_int [of 1] by simp

lemma rnd_numeral:
  "numeral k \<le> (9007199254740992::int) \<Longrightarrow> rnd (numeral k) = Fin (numeral k)"
  using rnd_of_int [of "numeral k"] by simp

lemma rnd_neg_numeral:
  "numeral k \<le> (9007199254740992::int) \<Longrightarrow> rnd (- numeral k) = Fin (- numeral k)"
  using rnd_of_int [of "- numeral k"] by simp

lemmas rnd_small = rnd_0 rnd_1 rnd_numeral rnd_neg_numeral

section \<open>The column dictionary\<close>

lemma col_append_Inr:
  "col_append k v col = Inr col' \<longleftrightarrow> (\<exists>vs. map_of col k = Some vs \<and> col' = AList.update k (vs @ [v]) col)"
  by (auto simp: col_append_def split: option.splits)

lemma col_append_keys:
  assumes "col_append k v col = Inr col'"
  shows "map fst col' = map fst col"
proof -
  from assms obtain vs where m: "map_of col k = Some vs" and c: "col' = AList.update k (vs @ [v]) col"
    by (auto simp: col_append_Inr)
  from m have "(k, vs) \<in> set col" by (rule map_of_SomeD)
  then have "k \<in> fst ` set col" by force
  with c show ?thesis by (simp add: update_keys)
qed

lemma col_append_map_of:
  "col_append k v col = Inr col' \<Longrightarrow>
     map_of col' k' = (if k' = k then map_option (\<lambda>vs. vs @ [v]) (map_of col k) else map_of col k')"
  by (auto simp: col_append_Inr update_conv')

lemma contrib_Nil: "contrib nm f k [] = []"
  by (simp add: contrib_def)

lemma contrib_Cons:
  "contrib nm f k (c # cs) =
     (if nm c = k then (case f c of Inl e \<Rightarrow> [] | Inr v \<Rightarrow> [v]) else []) @ contrib nm f k cs"
  by (simp add: contrib_def)

lemma append_values_keys:
  "append_values nm f cs col = Inr col' \<Longrightarrow> map fst col' = map fst col"
proof (induction cs arbitrary: col)
  case Nil
  then show ?case by simp
next
  case (Cons c cs)
  then show ?case
    by (auto split: sum.splits dest: col_append_keys)
qed

lemma append_values_map_of:
  "append_values nm f cs col = Inr col' \<Longrightarrow>
     map_of col' k = map_option (\<lambda>vs. vs @ contrib nm f k cs) (map_of col k)"
proof (induction cs arbitrary: col)
  case Nil
  then show ?case by (simp add: contrib_Nil option.map_ident)
next
  case (Cons c cs)
  from Cons.prems obtain v col1 where
    fc: "f c = Inr v" and ap: "col_append (nm c) v col = Inr col1"
    and rest: "append_values nm f cs col1 = Inr col'"
    by (auto split: sum.splits)
  from Cons.IH [OF rest] have "map_of col' k = map_option (\<lambda>vs. vs @ contrib nm f k cs) (map_of col1 k)" .
  also have "\<dots> = map_option (\<lambda>vs. vs @ contrib nm f k (c # cs)) (map_of col k)"
    using col_append_map_of [OF ap, of k] fc
    by (cases "map_of col k") (auto simp: contrib_Cons)
  finally show ?case .
qed

lemma append_values_ok:
  "append_values nm f cs col = Inr col' \<Longrightarrow> c \<in> set cs \<Longrightarrow> \<exists>v. f c = Inr v"
proof (induction cs arbitrary: col)
  case Nil
  then show ?case by simp
next
  case (Cons d cs)
  then show ?case by (auto split: sum.splits)
qed

lemma append_values_total:
  "\<forall>c\<in>set cs. (\<exists>v. f c = Inr v) \<and> nm c \<in> fst ` set col \<Longrightarrow> \<exists>col'. append_values nm f cs col = Inr col'"
proof (induction cs arbitrary: col)
  case Nil
  then show ?case by simp
next
  case (Cons d cs)
  from Cons.prems obtain v where fd: "f d = Inr v" by auto
  from Cons.prems have "nm d \<in> fst ` set col" by simp
  then obtain vs where "map_of col (nm d) = Some vs"
    by (metis domD dom_map_of_conv_image_fst)
  then obtain col1 where ap: "col_append (nm d) v col = Inr col1"
    by (simp add: col_append_def)
  have "fst ` set col1 = fst ` set col"
    using col_append_keys [OF ap] by (metis set_map)
  with Cons.prems have "\<forall>c\<in>set cs. (\<exists>v. f c = Inr v) \<and> nm c \<in> fst ` set col1" by simp
  from Cons.IH [OF this] show ?case using fd ap by simp
qed

lemma col_init_aux_map_of:
  "map_of (foldl (\<lambda>d n. AList.update n [] d) acc names) k =
     (if k \<in> set names then Some [] else map_of acc k)"
  by (induction names arbitrary: acc) (auto simp: update_conv')

lemma col_init_map_of: "map_of (col_init names) k = (if k \<in> set names then Some [] else None)"
  by (simp add: col_init_def col_init_aux_map_of)

lemma col_init_aux_distinct:
  "distinct (map fst acc) \<Longrightarrow> distinct (map fst (foldl (\<lambda>d n. AList.update n [] d) acc names))"
  by (induction names arbitrary: acc) (auto simp: distinct_update)

lemma col_init_distinct: "distinct (map fst (col_init names))"
  by (simp add: col_init_def col_init_aux_distinct)

lemma col_init_keys: "fst ` set (col_init names) = set names"
  using col_init_map_of [of names]
  by (auto simp: dom_map_of_conv_image_fst [symmetric] dom_def)

lemma update_fresh: "k \<notin> fst ` set al \<Longrightarrow> AList.update k v al = al @ [(k, v)]"
  by (induction al) auto

lemma col_init_aux_fresh:
  "distinct names \<Longrightarrow> set names \<inter> fst ` set acc = {} \<Longrightarrow>
     foldl (\<lambda>d n. AList.update n [] d) acc names = acc @ map (\<lambda>n. (n, [])) names"
proof (induction names arbitrary: acc)
  case Nil
  then show ?case by simp
next
  case (Cons n names)
  from Cons.prems have fresh: "n \<notin> fst ` set acc" by auto
  have "set names \<inter> fst ` set (acc @ [(n, [])]) = {}"
    using Cons.prems by auto
  with Cons.IH [of "acc @ [(n, [])]"] Cons.prems show ?case
    by (simp add: update_fresh [OF fresh])
qed

lemma col_init_distinct_names: "distinct names \<Longrightarrow> col_init names = map (\<lambda>n. (n, [])) names"
  using col_init_aux_fresh [of names "[]"] by (simp add: col_init_def)

section \<open>The loops of the two extract functions\<close>

lemma extract_loop_Cons_cases:
  assumes "extract_loop (it # rest) axes tag col = Inr col'"
  obtains (skip) "\<not> qualifies (lit ''point'') tag it" "extract_loop rest axes tag col = Inr col'"
  | (take) col1 where "qualifies (lit ''point'') tag it"
      "extract_axes (it_coords it) axes col = Inr col1"
      "extract_loop rest axes tag col1 = Inr col'"
  using assms by (auto simp: qualifies_def split: if_splits sum.splits bool.splits)

lemma extract_loop_keys:
  "extract_loop data axes tag col = Inr col' \<Longrightarrow> map fst col' = map fst col"
proof (induction data arbitrary: col)
  case Nil
  then show ?case by simp
next
  case (Cons it rest)
  from Cons.prems show ?case
  proof (cases rule: extract_loop_Cons_cases)
    case skip
    then show ?thesis using Cons.IH by simp
  next
    case (take col1)
    then show ?thesis
      using Cons.IH [of col1] append_values_keys [of ax_name _ axes col col1]
      by (simp add: extract_axes_def)
  qed
qed

lemma extract_loop_map_of:
  "extract_loop data axes tag col = Inr col' \<Longrightarrow>
     map_of col' k =
       map_option (\<lambda>vs. vs @ concat (map (\<lambda>it. contrib ax_name (\<lambda>ax. project ax (it_coords it)) k axes)
                                         (filter (qualifies (lit ''point'') tag) data)))
         (map_of col k)"
proof (induction data arbitrary: col)
  case Nil
  then show ?case by (simp add: option.map_ident)
next
  case (Cons it rest)
  from Cons.prems show ?case
  proof (cases rule: extract_loop_Cons_cases)
    case skip
    then show ?thesis using Cons.IH by simp
  next
    case (take col1)
    have "map_of col1 k =
            map_option (\<lambda>vs. vs @ contrib ax_name (\<lambda>ax. project ax (it_coords it)) k axes) (map_of col k)"
      using take(2) by (simp add: extract_axes_def append_values_map_of)
    with Cons.IH [OF take(3)] take(1) show ?thesis
      by (simp add: option.map_comp comp_def)
  qed
qed

lemma extract_loop_ok:
  "extract_loop data axes tag col = Inr col' \<Longrightarrow> it \<in> set data \<Longrightarrow> qualifies (lit ''point'') tag it \<Longrightarrow>
     ax \<in> set axes \<Longrightarrow> \<exists>v. project ax (it_coords it) = Inr v"
proof (induction data arbitrary: col)
  case Nil
  then show ?case by simp
next
  case (Cons d rest)
  from Cons.prems(1) show ?case
  proof (cases rule: extract_loop_Cons_cases)
    case skip
    then show ?thesis using Cons.IH Cons.prems by auto
  next
    case (take col1)
    show ?thesis
    proof (cases "it = d")
      case True
      with take(2) Cons.prems(4) show ?thesis
        using append_values_ok [of ax_name "\<lambda>ax. project ax (it_coords d)" axes col col1 ax]
        by (simp add: extract_axes_def)
    next
      case False
      with Cons.IH [OF take(3)] Cons.prems show ?thesis by simp
    qed
  qed
qed

lemma extract_B_loop_Cons_cases:
  assumes "extract_B_loop (it # rest) scales tag names col = Inr res"
  obtains (skip) "\<not> qualifies (lit ''line'') tag it" "extract_B_loop rest scales tag names col = Inr res"
  | (take) col1 where "qualifies (lit ''line'') tag it"
      "extract_scales (it_coords it) scales col = Inr col1"
      "extract_B_loop rest scales tag (names @ [it_name it]) col1 = Inr res"
  using assms by (auto simp: qualifies_def split: if_splits sum.splits bool.splits)

lemma extract_B_loop_names:
  "extract_B_loop data scales tag names col = Inr (names', col') \<Longrightarrow>
     names' = names @ map it_name (filter (qualifies (lit ''line'') tag) data)"
proof (induction data arbitrary: names col)
  case Nil
  then show ?case by simp
next
  case (Cons it rest)
  from Cons.prems show ?case
  proof (cases rule: extract_B_loop_Cons_cases)
    case skip
    then show ?thesis using Cons.IH by simp
  next
    case (take col1)
    then show ?thesis using Cons.IH [of "names @ [it_name it]" col1] by simp
  qed
qed

lemma extract_B_loop_keys:
  "extract_B_loop data scales tag names col = Inr (names', col') \<Longrightarrow> map fst col' = map fst col"
proof (induction data arbitrary: names col)
  case Nil
  then show ?case by simp
next
  case (Cons it rest)
  from Cons.prems show ?case
  proof (cases rule: extract_B_loop_Cons_cases)
    case skip
    then show ?thesis using Cons.IH by simp
  next
    case (take col1)
    then show ?thesis
      using Cons.IH [of "names @ [it_name it]" col1] append_values_keys [of sc_name _ scales col col1]
      by (simp add: extract_scales_def)
  qed
qed

lemma extract_B_loop_map_of:
  "extract_B_loop data scales tag names col = Inr (names', col') \<Longrightarrow>
     map_of col' k =
       map_option (\<lambda>vs. vs @ concat (map (\<lambda>it. contrib sc_name (\<lambda>sc. measure_line sc (it_coords it)) k scales)
                                         (filter (qualifies (lit ''line'') tag) data)))
         (map_of col k)"
proof (induction data arbitrary: names col)
  case Nil
  then show ?case by (simp add: option.map_ident)
next
  case (Cons it rest)
  from Cons.prems show ?case
  proof (cases rule: extract_B_loop_Cons_cases)
    case skip
    then show ?thesis using Cons.IH by simp
  next
    case (take col1)
    have "map_of col1 k =
            map_option (\<lambda>vs. vs @ contrib sc_name (\<lambda>sc. measure_line sc (it_coords it)) k scales) (map_of col k)"
      using take(2) by (simp add: extract_scales_def append_values_map_of)
    with Cons.IH [OF take(3)] take(1) show ?thesis
      by (simp add: option.map_comp comp_def)
  qed
qed

lemma extract_B_loop_ok:
  "extract_B_loop data scales tag names col = Inr res \<Longrightarrow> it \<in> set data \<Longrightarrow>
     qualifies (lit ''line'') tag it \<Longrightarrow> sc \<in> set scales \<Longrightarrow> \<exists>v. measure_line sc (it_coords it) = Inr v"
proof (induction data arbitrary: names col)
  case Nil
  then show ?case by simp
next
  case (Cons d rest)
  from Cons.prems(1) show ?case
  proof (cases rule: extract_B_loop_Cons_cases)
    case skip
    then show ?thesis using Cons.IH Cons.prems by auto
  next
    case (take col1)
    show ?thesis
    proof (cases "it = d")
      case True
      with take(2) Cons.prems(4) show ?thesis
        using append_values_ok [of sc_name "\<lambda>sc. measure_line sc (it_coords d)" scales col col1 sc]
        by (simp add: extract_scales_def)
    next
      case False
      with Cons.IH [OF take(3)] Cons.prems show ?thesis by simp
    qed
  qed
qed

lemma ebind_Inr [simp]: "ebind (Inr x) f = f x"
  by (simp add: ebind_def)

lemma ebind_Inl [simp]: "ebind (Inl e) f = Inl e"
  by (simp add: ebind_def)

lemma ebind_eq_Inr: "ebind m f = Inr y \<longleftrightarrow> (\<exists>x. m = Inr x \<and> f x = Inr y)"
  by (cases m) simp_all

lemma contrib_map_Inr:
  "\<forall>c\<in>set cs. \<exists>v. f c = Inr v \<Longrightarrow>
     map Inr (contrib nm f k cs) = map f (filter (\<lambda>c. nm c = k) cs)"
  by (induction cs) (auto simp: contrib_Nil contrib_Cons)

lemma map_Inr_concat:
  "\<forall>x\<in>set xs. map Inr (g x) = h x \<Longrightarrow> map Inr (concat (map g xs)) = concat (map h xs)"
  by (induction xs) simp_all

text \<open>
  The columns of \<^verbatim>\<open>extract\<close> in pipeline A: the column of a name holds, for the
  qualifying points in the order of the input, the values of the axes of that name in
  the order of the axes, and each value is the one \<open>project\<close> computes.
\<close>

lemma extract_A_columns:
  assumes "extract_A data axes tag = Inr col" and "map_of col k = Some vs"
  shows "map Inr vs =
           concat (map (\<lambda>it. map (\<lambda>ax. project ax (it_coords it)) (filter (\<lambda>ax. ax_name ax = k) axes))
                       (filter (qualifies (lit ''point'') tag) data))"
proof -
  let ?Q = "filter (qualifies (lit ''point'') tag) data"
  let ?g = "\<lambda>it. contrib ax_name (\<lambda>ax. project ax (it_coords it)) k axes"
  from assms(1) have loop: "extract_loop data axes tag (col_init (map ax_name axes)) = Inr col"
    by (simp add: extract_A_def)
  from extract_loop_map_of [OF loop, of k] assms(2)
  have vs: "vs = concat (map ?g ?Q)"
    by (auto simp: col_init_map_of split: if_splits)
  have "\<forall>it\<in>set ?Q. map Inr (?g it) =
          map (\<lambda>ax. project ax (it_coords it)) (filter (\<lambda>ax. ax_name ax = k) axes)"
  proof
    fix it assume "it \<in> set ?Q"
    then have "it \<in> set data" "qualifies (lit ''point'') tag it" by simp_all
    with extract_loop_ok [OF loop] have "\<forall>ax\<in>set axes. \<exists>v. project ax (it_coords it) = Inr v"
      by blast
    then show "map Inr (?g it) =
          map (\<lambda>ax. project ax (it_coords it)) (filter (\<lambda>ax. ax_name ax = k) axes)"
      by (rule contrib_map_Inr)
  qed
  then show ?thesis unfolding vs by (rule map_Inr_concat)
qed

lemma extract_A_keys:
  assumes "extract_A data axes tag = Inr col"
  shows "distinct (map fst col)" and "set (map fst col) = set (map ax_name axes)"
proof -
  from assms have "map fst col = map fst (col_init (map ax_name axes))"
    by (simp add: extract_A_def extract_loop_keys)
  then show "distinct (map fst col)" and "set (map fst col) = set (map ax_name axes)"
    using col_init_distinct [of "map ax_name axes"] col_init_keys [of "map ax_name axes"]
    by simp_all
qed

lemma extract_A_key_order:
  "extract_A data axes tag = Inr col \<Longrightarrow> distinct (map ax_name axes) \<Longrightarrow>
     map fst col = map ax_name axes"
  by (simp add: extract_A_def extract_loop_keys col_init_distinct_names comp_def)

lemma extract_B_columns:
  assumes "extract_B data scales tag = Inr (names, col)" and "map_of col k = Some vs"
  shows "map Inr vs =
           concat (map (\<lambda>it. map (\<lambda>sc. measure_line sc (it_coords it))
                                   (filter (\<lambda>sc. sc_name sc = k) scales))
                       (filter (qualifies (lit ''line'') tag) data))"
proof -
  let ?Q = "filter (qualifies (lit ''line'') tag) data"
  let ?g = "\<lambda>it. contrib sc_name (\<lambda>sc. measure_line sc (it_coords it)) k scales"
  from assms(1) have loop:
    "extract_B_loop data scales tag [] (col_init (map sc_name scales)) = Inr (names, col)"
    by (simp add: extract_B_def)
  from extract_B_loop_map_of [OF loop, of k] assms(2)
  have vs: "vs = concat (map ?g ?Q)"
    by (auto simp: col_init_map_of split: if_splits)
  have "\<forall>it\<in>set ?Q. map Inr (?g it) =
          map (\<lambda>sc. measure_line sc (it_coords it)) (filter (\<lambda>sc. sc_name sc = k) scales)"
  proof
    fix it assume "it \<in> set ?Q"
    then have "it \<in> set data" "qualifies (lit ''line'') tag it" by simp_all
    with extract_B_loop_ok [OF loop]
    have "\<forall>sc\<in>set scales. \<exists>v. measure_line sc (it_coords it) = Inr v"
      by blast
    then show "map Inr (?g it) =
          map (\<lambda>sc. measure_line sc (it_coords it)) (filter (\<lambda>sc. sc_name sc = k) scales)"
      by (rule contrib_map_Inr)
  qed
  then show ?thesis unfolding vs by (rule map_Inr_concat)
qed

lemma extract_B_keys:
  assumes "extract_B data scales tag = Inr (names, col)"
  shows "distinct (map fst col)" and "set (map fst col) = set (map sc_name scales)"
proof -
  from assms have "map fst col = map fst (col_init (map sc_name scales))"
    by (simp add: extract_B_def extract_B_loop_keys)
  then show "distinct (map fst col)" and "set (map fst col) = set (map sc_name scales)"
    using col_init_distinct [of "map sc_name scales"] col_init_keys [of "map sc_name scales"]
    by simp_all
qed

lemma extract_B_names:
  "extract_B data scales tag = Inr (names, col) \<Longrightarrow>
     names = map it_name (filter (qualifies (lit ''line'') tag) data)"
  using extract_B_loop_names [of data scales tag "[]"] by (simp add: extract_B_def)

text \<open>
  \<^verbatim>\<open>extract\<close> returns when the tags can be read and every value can be computed.
\<close>

lemma extract_loop_total:
  assumes "\<forall>it\<in>set data. it_type it = lit ''point'' \<longrightarrow> (\<exists>b. tag_excluded tag it = Inr b)"
    and "\<forall>it\<in>set data. qualifies (lit ''point'') tag it \<longrightarrow>
           (\<forall>ax\<in>set axes. \<exists>v. project ax (it_coords it) = Inr v)"
    and "ax_name ` set axes \<subseteq> fst ` set col"
  shows "\<exists>col'. extract_loop data axes tag col = Inr col'"
  using assms
proof (induction data arbitrary: col)
  case Nil
  then show ?case by simp
next
  case (Cons it rest)
  show ?case
  proof (cases "it_type it = lit ''point''")
    case False
    with Cons.IH [of col] Cons.prems show ?thesis by (simp add: qualifies_def)
  next
    case True
    with Cons.prems(1) obtain b where b: "tag_excluded tag it = Inr b" by auto
    show ?thesis
    proof (cases b)
      case True
      with b \<open>it_type it = lit ''point''\<close> Cons.IH [of col] Cons.prems show ?thesis
        by (simp add: qualifies_def)
    next
      case False
      with b \<open>it_type it = lit ''point''\<close> have q: "qualifies (lit ''point'') tag it"
        by (simp add: qualifies_def)
      with Cons.prems(2) have "\<forall>ax\<in>set axes. \<exists>v. project ax (it_coords it) = Inr v"
        by simp
      with Cons.prems(3)
      have "\<forall>ax\<in>set axes. (\<exists>v. project ax (it_coords it) = Inr v) \<and> ax_name ax \<in> fst ` set col"
        by auto
      from append_values_total [OF this] obtain col1 where
        c1: "extract_axes (it_coords it) axes col = Inr col1"
        by (auto simp: extract_axes_def)
      then have "map fst col1 = map fst col"
        by (simp add: extract_axes_def append_values_keys)
      then have "fst ` set col1 = fst ` set col" by (metis set_map)
      with Cons.prems(3) have "ax_name ` set axes \<subseteq> fst ` set col1" by simp
      with Cons.IH [of col1] Cons.prems(1,2) obtain col' where
        "extract_loop rest axes tag col1 = Inr col'" by auto
      with b False \<open>it_type it = lit ''point''\<close> c1 show ?thesis by simp
    qed
  qed
qed

lemma extract_A_total:
  assumes "\<forall>it\<in>set data. it_type it = lit ''point'' \<longrightarrow> (\<exists>b. tag_excluded tag it = Inr b)"
    and "\<forall>it\<in>set data. qualifies (lit ''point'') tag it \<longrightarrow>
           (\<forall>ax\<in>set axes. \<exists>v. project ax (it_coords it) = Inr v)"
  shows "\<exists>col. extract_A data axes tag = Inr col"
  unfolding extract_A_def
  by (rule extract_loop_total [OF assms]) (simp add: col_init_keys)

lemma extract_B_loop_total:
  assumes "\<forall>it\<in>set data. it_type it = lit ''line'' \<longrightarrow> (\<exists>b. tag_excluded tag it = Inr b)"
    and "\<forall>it\<in>set data. qualifies (lit ''line'') tag it \<longrightarrow>
           (\<forall>sc\<in>set scales. \<exists>v. measure_line sc (it_coords it) = Inr v)"
    and "sc_name ` set scales \<subseteq> fst ` set col"
  shows "\<exists>res. extract_B_loop data scales tag names col = Inr res"
  using assms
proof (induction data arbitrary: names col)
  case Nil
  then show ?case by simp
next
  case (Cons it rest)
  show ?case
  proof (cases "it_type it = lit ''line''")
    case False
    with Cons.IH [of col names] Cons.prems show ?thesis by (simp add: qualifies_def)
  next
    case True
    with Cons.prems(1) obtain b where b: "tag_excluded tag it = Inr b" by auto
    show ?thesis
    proof (cases b)
      case True
      with b \<open>it_type it = lit ''line''\<close> Cons.IH [of col names] Cons.prems show ?thesis
        by (simp add: qualifies_def)
    next
      case False
      with b \<open>it_type it = lit ''line''\<close> have q: "qualifies (lit ''line'') tag it"
        by (simp add: qualifies_def)
      with Cons.prems(2) have "\<forall>sc\<in>set scales. \<exists>v. measure_line sc (it_coords it) = Inr v"
        by simp
      with Cons.prems(3)
      have "\<forall>sc\<in>set scales. (\<exists>v. measure_line sc (it_coords it) = Inr v) \<and>
              sc_name sc \<in> fst ` set col"
        by auto
      from append_values_total [OF this] obtain col1 where
        c1: "extract_scales (it_coords it) scales col = Inr col1"
        by (auto simp: extract_scales_def)
      then have "map fst col1 = map fst col"
        by (simp add: extract_scales_def append_values_keys)
      then have "fst ` set col1 = fst ` set col" by (metis set_map)
      with Cons.prems(3) have "sc_name ` set scales \<subseteq> fst ` set col1" by simp
      with Cons.IH [of col1 "names @ [it_name it]"] Cons.prems(1,2) obtain res where
        "extract_B_loop rest scales tag (names @ [it_name it]) col1 = Inr res" by auto
      with b False \<open>it_type it = lit ''line''\<close> c1 show ?thesis by simp
    qed
  qed
qed

lemma extract_B_total:
  assumes "\<forall>it\<in>set data. it_type it = lit ''line'' \<longrightarrow> (\<exists>b. tag_excluded tag it = Inr b)"
    and "\<forall>it\<in>set data. qualifies (lit ''line'') tag it \<longrightarrow>
           (\<forall>sc\<in>set scales. \<exists>v. measure_line sc (it_coords it) = Inr v)"
  shows "\<exists>res. extract_B data scales tag = Inr res"
  unfolding extract_B_def
  by (rule extract_B_loop_total [OF assms]) (simp add: col_init_keys)

section \<open>Evaluation of the examples\<close>

lemmas regex_eval = axis_match_def scale_match_def lit_def re_w_def re_s_def re_num_def re_d_def
  Let_def

lemmas float_eval = float_py_def float_literal_def float_exponent_def strip_sign_def
  digits_val_def digit_val_def lit_def re_d_def rnd_small

lemmas num_eval = vec_sub_def sq_dist_def math_sqrt_num_def fmul_num_def fdiv_num_def fsub_def
  fdiv_def dot_delta_def rnd_small

lemma sqrt_9: "sqrt 9 = 3"
  by (rule real_sqrt_unique) simp_all

lemma sqrt_25: "sqrt 25 = 5"
  by (rule real_sqrt_unique) simp_all

lemma sqrt_100: "sqrt 100 = 10"
  by (rule real_sqrt_unique) simp_all






lemma axis_match_X_0_100:
  "axis_match (lit ''X: 0 100'') = Some (lit ''X'', lit ''0'', lit ''100'', [])"
  by (simp add: regex_eval)


lemma float_py_0: "float_py (lit ''0'') = Inr (Fin 0)"
  by (simp add: float_eval)


lemma float_py_100: "float_py (lit ''100'') = Inr (Fin 100)"
  by (simp add: float_eval)

lemma lit_L: "([] = lit ''L'') = False"
  by (simp add: lit_def)

lemma getaxes_X_0_100:
  "getaxes [line_named ''X: 0 100'' (PyInt 0, PyInt 0) (PyInt 10, PyInt 0)] =
     Inr [\<lparr>ax_name = lit ''X'', ax_r0 = (PyInt 0, PyInt 0), ax_r1 = (PyInt 10, PyInt 0),
           ax_islog = False, ax_delta = (PyInt 10, PyInt 0), ax_l2 = PyInt 100, ax_l = Fin 10,
           ax_a = Fin 0, ax_b = Fin 100\<rparr>]"
  by (simp add: getaxes_def getaxes_item_def line_named_def axis_match_X_0_100 float_py_0
      float_py_100 lit_L Axis_init_def num_eval sqrt_100)












lemma Axis_B_init_Inr:
  assumes "Axis_B_init name r0 r1 physlen = Inr sc"
  shows "sc_name sc = name" "sc_r0 sc = r0" "sc_r1 sc = r1" "sc_physlen sc = physlen"
    "vec_sub r1 r0 = Inr (sc_delta sc)" "sq_dist r0 r1 = Inr (sc_l2 sc)"
    "math_sqrt_num (sc_l2 sc) = Inr (sc_l sc)" "sc_l sc \<noteq> Fin 0"
    "sc_unitperpx sc = fquot physlen (sc_l sc)"
  using assms by (auto simp: Axis_B_init_def ebind_eq_Inr fdiv_def split: if_splits)


lemma scale_match_S_10: "scale_match (lit ''S: 10'') = Some (lit ''S'', lit ''10'')"
  by (simp add: regex_eval)


lemma float_py_10: "float_py (lit ''10'') = Inr (Fin 10)"
  by (simp add: float_eval)





section \<open>The calibration parsers\<close>

lemma axis_match_X_e_1: "axis_match (lit ''X: e 1'') = Some (lit ''X'', lit ''e'', lit ''1'', [])"
  by (simp add: regex_eval)

lemma scale_match_S_e: "scale_match (lit ''S: e'') = Some (lit ''S'', lit ''e'')"
  by (simp add: regex_eval)

lemma float_py_e: "float_py (lit ''e'') = Inl ValueError"
  by (simp add: float_eval)

lemma float_py_1: "float_py (lit ''1'') = Inr (Fin 1)"
  by (simp add: float_eval)

lemma rnd_milli: "rnd (1 / 1000) = Fin (1152921504606847 / 1152921504606846976)"
proof -
  have "rnd (1 / 1000) = Fin (of_int 4611686018427388 * 2 powi (- 10 - 52))"
    by (rule rnd_normal) (simp_all add: round_even_def)
  then show ?thesis by simp
qed

lemma float_py_signed_exponent:
  "float_py (lit ''+1e-3'') = Inr (Fin (1152921504606847 / 1152921504606846976))"
  "float_py (lit ''-2.5e2'') = Inr (Fin (- 250))"
  by (simp_all add: float_eval rnd_milli Let_def)

lemma axis_match_hello: "axis_match (lit ''hello'') = None"
  by (simp add: regex_eval)

text \<open>
  The name \<^verbatim>\<open>X: \<close> followed by the full-width digits \<^verbatim>\<open>10\<close>, a space and the
  full-width digit \<^verbatim>\<open>2\<close>.
\<close>

lemma axis_match_fullwidth:
  "axis_match [88, 58, 32, 65297, 65296, 32, 65298] = Some ([88], [65297, 65296], [65298], [])"
  by (simp add: regex_eval in_ranges_def unicode_decimal_def)

lemma float_py_fullwidth:
  "float_py [65297, 65296] = Inr (Fin 10)" "float_py [65298] = Inr (Fin 2)"
  by (simp_all add: float_eval Let_def in_ranges_def unicode_decimal_def)

lemma float_py_error: "float_py s = Inl e \<Longrightarrow> e = ValueError"
  by (simp add: float_py_def split: option.splits)

lemma list_all_takeWhile: "list_all P (takeWhile P xs)"
  by (induction xs) simp_all

lemma axis_match_tokens:
  assumes "axis_match s = Some (n, ta, tb, l)"
  shows "n \<noteq> [] \<and> list_all re_w n \<and> ta \<noteq> [] \<and> list_all re_num ta \<and> tb \<noteq> [] \<and> list_all re_num tb \<and>
     (l = [] \<or> l = lit ''L'')"
proof -
  define s1 where "s1 = dropWhile re_w s"
  have nn: "takeWhile re_w s \<noteq> []"
    using assms by (cases "takeWhile re_w s = []") (simp_all add: axis_match_def)
  note a = assms [unfolded axis_match_def Let_def, folded s1_def]
  obtain c s2 where c: "s1 = c # s2"
    using a nn by (cases s1) simp_all
  have colon: "c = 58"
    using a nn c by (cases "c = 58") simp_all
  define s3 where "s3 = dropWhile re_s s2"
  define s4 where "s4 = dropWhile re_num s3"
  define s5 where "s5 = dropWhile re_s s4"
  define s6 where "s6 = dropWhile re_num s5"
  define s7 where "s7 = dropWhile re_s s6"
  have eq: "axis_match s =
      (if takeWhile re_num s3 = [] then None
       else if takeWhile re_s s4 = [] then None
       else if takeWhile re_num s5 = [] then None
       else Some (takeWhile re_w s, takeWhile re_num s3, takeWhile re_num s5,
                  (case s7 of [] \<Rightarrow> [] | d # _ \<Rightarrow> if d = 76 then [76] else [])))"
    unfolding axis_match_def Let_def s1_def [symmetric] s3_def s4_def s5_def s6_def s7_def
    using nn c colon by simp
  have an: "takeWhile re_num s3 \<noteq> []"
    using assms eq by (cases "takeWhile re_num s3 = []") simp_all
  have sn: "takeWhile re_s s4 \<noteq> []"
    using assms eq an by (cases "takeWhile re_s s4 = []") simp_all
  have bn: "takeWhile re_num s5 \<noteq> []"
    using assms eq an sn by (cases "takeWhile re_num s5 = []") simp_all
  from assms eq an sn bn have r: "n = takeWhile re_w s" "ta = takeWhile re_num s3"
    "tb = takeWhile re_num s5"
    "l = (case s7 of [] \<Rightarrow> [] | d # _ \<Rightarrow> if d = 76 then [76] else [])"
    by simp_all
  have "l = [] \<or> l = lit ''L''"
    unfolding r(4) by (cases s7) (simp_all add: lit_def)
  with r(1-3) nn an bn show ?thesis
    by (simp add: list_all_takeWhile)
qed

lemma scale_match_tokens:
  assumes "scale_match s = Some (n, tlen)"
  shows "n \<noteq> [] \<and> list_all re_w n \<and> tlen \<noteq> [] \<and> list_all re_num tlen"
proof -
  define s1 where "s1 = dropWhile re_w s"
  have nn: "takeWhile re_w s \<noteq> []"
    using assms by (cases "takeWhile re_w s = []") (simp_all add: scale_match_def)
  note a = assms [unfolded scale_match_def Let_def, folded s1_def]
  obtain c s2 where c: "s1 = c # s2"
    using a nn by (cases s1) simp_all
  have colon: "c = 58"
    using a nn c by (cases "c = 58") simp_all
  define s3 where "s3 = dropWhile re_s s2"
  have eq: "scale_match s =
      (if takeWhile re_num s3 = [] then None else Some (takeWhile re_w s, takeWhile re_num s3))"
    unfolding scale_match_def Let_def s1_def [symmetric] s3_def
    using nn c colon by simp
  have ln: "takeWhile re_num s3 \<noteq> []"
    using assms eq by (cases "takeWhile re_num s3 = []") simp_all
  from assms eq ln have "n = takeWhile re_w s" "tlen = takeWhile re_num s3"
    by simp_all
  with nn ln show ?thesis
    by (simp add: list_all_takeWhile)
qed

lemma getaxes_fullwidth:
  "getaxes [\<lparr>it_type = lit ''line'', it_name = [88, 58, 32, 65297, 65296, 32, 65298],
             it_coords = LineC (PyInt 0, PyInt 0) (PyInt 3, PyInt 0), it_tags = None\<rparr>] =
     Inr [\<lparr>ax_name = [88], ax_r0 = (PyInt 0, PyInt 0), ax_r1 = (PyInt 3, PyInt 0),
           ax_islog = False, ax_delta = (PyInt 3, PyInt 0), ax_l2 = PyInt 9, ax_l = Fin 3,
           ax_a = Fin 10, ax_b = Fin 2\<rparr>]"
  by (simp add: getaxes_def getaxes_item_def axis_match_fullwidth float_py_fullwidth lit_L
      Axis_init_def num_eval sqrt_9)

text \<open>
  Claim C4 as stated fails: the name \<^verbatim>\<open>X: e 1\<close> matches the axis grammar with the token
  \<^verbatim>\<open>e\<close>, \<^verbatim>\<open>float("e")\<close> raises, and \<^verbatim>\<open>getaxes\<close> raises with it; likewise
  \<^verbatim>\<open>S: e\<close> in \<^verbatim>\<open>getscales\<close>.
\<close>

theorem parser_raises_counterexample:
  "axis_match (lit ''X: e 1'') = Some (lit ''X'', lit ''e'', lit ''1'', []) \<and>
   getaxes [line_named ''X: e 1'' (PyInt 0, PyInt 0) (PyInt 10, PyInt 0)] = Inl ValueError \<and>
   scale_match (lit ''S: e'') = Some (lit ''S'', lit ''e'') \<and>
   getscales [line_named ''S: e'' (PyInt 0, PyInt 0) (PyInt 5, PyInt 0)] = Inl ValueError"
  by (simp add: axis_match_X_e_1 scale_match_S_e getaxes_def getaxes_item_def getscales_def
      getscales_item_def line_named_def float_py_e)

text \<open>
  Claim C4, amended. An annotation whose name does not match the grammar is skipped
  without an error. A name the grammar accepts yields non-empty tokens over the class
  \<^verbatim>\<open>[\d.efg+-]\<close>, where \<^verbatim>\<open>\d\<close> is every Unicode decimal digit: the full-width
  \<^verbatim>\<open>10\<close> and \<^verbatim>\<open>2\<close> are tokens, and \<^verbatim>\<open>float\<close> reads them as 10 and 2. \<^verbatim>\<open>float\<close>
  reads a sign and an exponent and returns the nearest double (\<^verbatim>\<open>+1e-3\<close> gives
  \<open>1152921504606847 / 2 ^ 60\<close>, \<^verbatim>\<open>-2.5e2\<close> gives \<open>-250\<close>); when it rejects a token of
  a matched line, the parser raises \<^verbatim>\<open>ValueError\<close>.
\<close>

theorem unmatched_lines_skipped:
  "(axis_match (it_name it) = None \<longrightarrow> getaxes_loop (it # rest) axes = getaxes_loop rest axes) \<and>
   (scale_match (it_name it) = None \<longrightarrow>
      getscales_loop (it # rest) scales = getscales_loop rest scales) \<and>
   (axis_match s = Some (n, ta, tb, l) \<longrightarrow>
      ta \<noteq> [] \<and> list_all re_num ta \<and> tb \<noteq> [] \<and> list_all re_num tb) \<and>
   (scale_match s = Some (n, tlen) \<longrightarrow> tlen \<noteq> [] \<and> list_all re_num tlen) \<and>
   (it_type it = lit ''line'' \<and> axis_match (it_name it) = Some (n, ta, tb, l) \<and>
      (float_py ta = Inl e \<or> float_py tb = Inl e) \<longrightarrow>
      getaxes_loop (it # rest) axes = Inl ValueError) \<and>
   (it_type it = lit ''line'' \<and> scale_match (it_name it) = Some (n, tlen) \<and>
      float_py tlen = Inl e \<longrightarrow>
      getscales_loop (it # rest) scales = Inl ValueError) \<and>
   float_py (lit ''+1e-3'') = Inr (Fin (1152921504606847 / 1152921504606846976)) \<and>
   float_py (lit ''-2.5e2'') = Inr (Fin (- 250)) \<and>
   axis_match [88, 58, 32, 65297, 65296, 32, 65298] =
     Some ([88], [65297, 65296], [65298], []) \<and>
   float_py [65297, 65296] = Inr (Fin 10) \<and> float_py [65298] = Inr (Fin 2) \<and>
   getaxes [\<lparr>it_type = lit ''line'', it_name = [88, 58, 32, 65297, 65296, 32, 65298],
             it_coords = LineC (PyInt 0, PyInt 0) (PyInt 3, PyInt 0), it_tags = None\<rparr>] =
     Inr [\<lparr>ax_name = [88], ax_r0 = (PyInt 0, PyInt 0), ax_r1 = (PyInt 3, PyInt 0),
           ax_islog = False, ax_delta = (PyInt 3, PyInt 0), ax_l2 = PyInt 9, ax_l = Fin 3,
           ax_a = Fin 10, ax_b = Fin 2\<rparr>]"
proof (intro conjI impI)
  assume "axis_match (it_name it) = None"
  then show "getaxes_loop (it # rest) axes = getaxes_loop rest axes"
    by (simp add: getaxes_item_def)
next
  assume "scale_match (it_name it) = None"
  then show "getscales_loop (it # rest) scales = getscales_loop rest scales"
    by (simp add: getscales_item_def)
next
  assume m: "axis_match s = Some (n, ta, tb, l)"
  from axis_match_tokens [OF m] show "ta \<noteq> []" "list_all re_num ta" "tb \<noteq> []" "list_all re_num tb"
    by simp_all
next
  assume m: "scale_match s = Some (n, tlen)"
  from scale_match_tokens [OF m] show "tlen \<noteq> []" "list_all re_num tlen"
    by simp_all
next
  assume a: "it_type it = lit ''line'' \<and> axis_match (it_name it) = Some (n, ta, tb, l) \<and>
      (float_py ta = Inl e \<or> float_py tb = Inl e)"
  then have "getaxes_item it = Inl ValueError"
    by (auto simp: getaxes_item_def split: sum.splits dest: float_py_error)
  then show "getaxes_loop (it # rest) axes = Inl ValueError"
    by simp
next
  assume a: "it_type it = lit ''line'' \<and> scale_match (it_name it) = Some (n, tlen) \<and>
      float_py tlen = Inl e"
  then have "getscales_item it = Inl ValueError"
    by (auto simp: getscales_item_def dest: float_py_error)
  then show "getscales_loop (it # rest) scales = Inl ValueError"
    by simp
next
  show "float_py (lit ''+1e-3'') = Inr (Fin (1152921504606847 / 1152921504606846976))"
    "float_py (lit ''-2.5e2'') = Inr (Fin (- 250))"
    by (rule float_py_signed_exponent)+
next
  show "axis_match [88, 58, 32, 65297, 65296, 32, 65298] =
     Some ([88], [65297, 65296], [65298], [])"
    by (rule axis_match_fullwidth)
next
  show "float_py [65297, 65296] = Inr (Fin 10)" "float_py [65298] = Inr (Fin 2)"
    by (rule float_py_fullwidth)+
next
  show "getaxes [\<lparr>it_type = lit ''line'', it_name = [88, 58, 32, 65297, 65296, 32, 65298],
             it_coords = LineC (PyInt 0, PyInt 0) (PyInt 3, PyInt 0), it_tags = None\<rparr>] =
     Inr [\<lparr>ax_name = [88], ax_r0 = (PyInt 0, PyInt 0), ax_r1 = (PyInt 3, PyInt 0),
           ax_islog = False, ax_delta = (PyInt 3, PyInt 0), ax_l2 = PyInt 9, ax_l = Fin 3,
           ax_a = Fin 10, ax_b = Fin 2\<rparr>]"
    by (rule getaxes_fullwidth)
qed

theorem unmatched_lines_skipped_witness:
  "getaxes [line_named ''hello'' (PyInt 0, PyInt 0) (PyInt 1, PyInt 1)] = Inr [] \<and>
   getaxes_loop [line_named ''X: e 1'' (PyInt 0, PyInt 0) (PyInt 10, PyInt 0)] [] =
     Inl ValueError \<and>
   list_all re_num [65297, 65296] \<and>
   list_all re_num (lit ''10'')"
proof -
  let ?h = "line_named ''hello'' (PyInt 0, PyInt 0) (PyInt 1, PyInt 1)"
  let ?x = "line_named ''X: e 1'' (PyInt 0, PyInt 0) (PyInt 10, PyInt 0)"
  have "axis_match (it_name ?h) = None"
    by (simp add: line_named_def axis_match_hello)
  with unmatched_lines_skipped [where it = ?h and rest = "[]" and axes = "[]"]
  have 1: "getaxes [?h] = Inr []"
    by (simp add: getaxes_def)
  have "it_type ?x = lit ''line'' \<and>
      axis_match (it_name ?x) = Some (lit ''X'', lit ''e'', lit ''1'', []) \<and>
      (float_py (lit ''e'') = Inl ValueError \<or> float_py (lit ''1'') = Inl ValueError)"
    by (simp add: line_named_def axis_match_X_e_1 float_py_e)
  with unmatched_lines_skipped [where it = ?x and rest = "[]" and axes = "[]" and n = "lit ''X''"
      and ta = "lit ''e''" and tb = "lit ''1''" and l = "[]" and e = ValueError]
  have 2: "getaxes_loop [?x] [] = Inl ValueError"
    by blast
  from unmatched_lines_skipped [where s = "[88, 58, 32, 65297, 65296, 32, 65298]"
      and n = "[88]" and ta = "[65297, 65296]" and tb = "[65298]" and l = "[]"]
    axis_match_fullwidth
  have 3: "list_all re_num [65297, 65296]"
    by blast
  from unmatched_lines_skipped [where s = "lit ''S: 10''" and n = "lit ''S''"
      and tlen = "lit ''10''"] scale_match_S_10
  have 4: "list_all re_num (lit ''10'')"
    by blast
  from 1 2 3 4 show ?thesis by simp
qed

section \<open>Names of the calibrations and length of the columns\<close>

lemma Axis_init_name: "Axis_init name r0 r1 a b islog = Inr ax \<Longrightarrow> ax_name ax = name"
  by (auto simp: Axis_init_def ebind_eq_Inr)

lemma Axis_B_init_name: "Axis_B_init name r0 r1 physlen = Inr sc \<Longrightarrow> sc_name sc = name"
  by (simp add: Axis_B_init_Inr)

lemma getaxes_item_Some: "getaxes_item it = Inr (Some ax) \<Longrightarrow> axis_name_of it = Some (ax_name ax)"
  unfolding getaxes_item_def axis_name_of_def
  by (auto split: if_splits option.splits sum.splits coords.splits dest: Axis_init_name)

lemma getaxes_item_None: "getaxes_item it = Inr None \<Longrightarrow> axis_name_of it = None"
  unfolding getaxes_item_def axis_name_of_def
  by (auto split: if_splits option.splits sum.splits coords.splits)

lemma getscales_item_Some: "getscales_item it = Inr (Some sc) \<Longrightarrow> scale_name_of it = Some (sc_name sc)"
  unfolding getscales_item_def scale_name_of_def
  by (auto split: if_splits option.splits sum.splits coords.splits dest: Axis_B_init_name)

lemma getscales_item_None: "getscales_item it = Inr None \<Longrightarrow> scale_name_of it = None"
  unfolding getscales_item_def scale_name_of_def
  by (auto split: if_splits option.splits sum.splits coords.splits)

lemma getaxes_loop_names:
  "getaxes_loop data acc = Inr axes \<Longrightarrow>
     map ax_name axes = map ax_name acc @ List.map_filter axis_name_of data"
proof (induction data arbitrary: acc)
  case Nil
  then show ?case by (simp add: List.map_filter_simps)
next
  case (Cons it rest)
  show ?case
  proof (cases "getaxes_item it")
    case (Inl e)
    with Cons.prems show ?thesis by simp
  next
    case (Inr r)
    show ?thesis
    proof (cases r)
      case None
      with Inr Cons.prems have "getaxes_loop rest acc = Inr axes" by simp
      from Cons.IH [OF this] getaxes_item_None [of it] Inr None show ?thesis
        by (simp add: List.map_filter_simps)
    next
      case (Some ax)
      with Inr Cons.prems have "getaxes_loop rest (acc @ [ax]) = Inr axes" by simp
      from Cons.IH [OF this] getaxes_item_Some [of it ax] Inr Some show ?thesis
        by (simp add: List.map_filter_simps)
    qed
  qed
qed

lemma getscales_loop_names:
  "getscales_loop data acc = Inr scales \<Longrightarrow>
     map sc_name scales = map sc_name acc @ List.map_filter scale_name_of data"
proof (induction data arbitrary: acc)
  case Nil
  then show ?case by (simp add: List.map_filter_simps)
next
  case (Cons it rest)
  show ?case
  proof (cases "getscales_item it")
    case (Inl e)
    with Cons.prems show ?thesis by simp
  next
    case (Inr r)
    show ?thesis
    proof (cases r)
      case None
      with Inr Cons.prems have "getscales_loop rest acc = Inr scales" by simp
      from Cons.IH [OF this] getscales_item_None [of it] Inr None show ?thesis
        by (simp add: List.map_filter_simps)
    next
      case (Some sc)
      with Inr Cons.prems have "getscales_loop rest (acc @ [sc]) = Inr scales" by simp
      from Cons.IH [OF this] getscales_item_Some [of it sc] Inr Some show ?thesis
        by (simp add: List.map_filter_simps)
    qed
  qed
qed

lemma length_concat_const:
  "\<forall>x\<in>set xs. length (g x) = m \<Longrightarrow> length (concat (map g xs)) = length xs * m"
  by (induction xs) simp_all

lemma extract_A_column_length:
  assumes "extract_A data axes tag = Inr col" and "map_of col k = Some vs"
  shows "length vs = length (filter (qualifies (lit ''point'') tag) data) *
                     length (filter (\<lambda>ax. ax_name ax = k) axes)"
proof -
  have "length vs = length (map (Inr :: pyfloat \<Rightarrow> error + pyfloat) vs)" by simp
  also have "\<dots> = length (filter (qualifies (lit ''point'') tag) data) *
                     length (filter (\<lambda>ax. ax_name ax = k) axes)"
    unfolding extract_A_columns [OF assms] by (rule length_concat_const) simp
  finally show ?thesis .
qed

lemma extract_B_column_length:
  assumes "extract_B data scales tag = Inr (names, col)" and "map_of col k = Some vs"
  shows "length vs = length (filter (qualifies (lit ''line'') tag) data) *
                     length (filter (\<lambda>sc. sc_name sc = k) scales)"
proof -
  have "length vs = length (map (Inr :: pyfloat \<Rightarrow> error + pyfloat) vs)" by simp
  also have "\<dots> = length (filter (qualifies (lit ''line'') tag) data) *
                     length (filter (\<lambda>sc. sc_name sc = k) scales)"
    unfolding extract_B_columns [OF assms] by (rule length_concat_const) simp
  finally show ?thesis .
qed

section \<open>Calibrations that share a name\<close>

lemma axis_match_X_0_10:
  "axis_match (lit ''X: 0 10'') = Some (lit ''X'', lit ''0'', lit ''10'', [])"
  by (simp add: regex_eval)

lemma getaxes_two_X:
  "getaxes
     [line_named ''X: 0 100'' (PyInt 0, PyInt 0) (PyInt 10, PyInt 0),
      line_named ''X: 0 10'' (PyInt 0, PyInt 0) (PyInt 10, PyInt 0),
      point_at (PyInt 5) (PyInt 0)] =
   Inr [\<lparr>ax_name = lit ''X'', ax_r0 = (PyInt 0, PyInt 0), ax_r1 = (PyInt 10, PyInt 0),
       ax_islog = False, ax_delta = (PyInt 10, PyInt 0), ax_l2 = PyInt 100, ax_l = Fin 10,
       ax_a = Fin 0, ax_b = Fin 100\<rparr>,
      \<lparr>ax_name = lit ''X'', ax_r0 = (PyInt 0, PyInt 0), ax_r1 = (PyInt 10, PyInt 0),
       ax_islog = False, ax_delta = (PyInt 10, PyInt 0), ax_l2 = PyInt 100, ax_l = Fin 10,
       ax_a = Fin 0, ax_b = Fin 10\<rparr>]"
  by (simp add: getaxes_def getaxes_item_def line_named_def point_at_def axis_match_X_0_100
      axis_match_X_0_10 float_py_0 float_py_100 float_py_10 lit_L Axis_init_def num_eval sqrt_100)
    (simp add: lit_def)

lemma extract_A_two_X:
  "extract_A
     [line_named ''X: 0 100'' (PyInt 0, PyInt 0) (PyInt 10, PyInt 0),
      line_named ''X: 0 10'' (PyInt 0, PyInt 0) (PyInt 10, PyInt 0),
      point_at (PyInt 5) (PyInt 0)]
     [\<lparr>ax_name = lit ''X'', ax_r0 = (PyInt 0, PyInt 0), ax_r1 = (PyInt 10, PyInt 0),
       ax_islog = False, ax_delta = (PyInt 10, PyInt 0), ax_l2 = PyInt 100, ax_l = Fin 10,
       ax_a = Fin 0, ax_b = Fin 100\<rparr>,
      \<lparr>ax_name = lit ''X'', ax_r0 = (PyInt 0, PyInt 0), ax_r1 = (PyInt 10, PyInt 0),
       ax_islog = False, ax_delta = (PyInt 10, PyInt 0), ax_l2 = PyInt 100, ax_l = Fin 10,
       ax_a = Fin 0, ax_b = Fin 10\<rparr>] None =
   Inr [(lit ''X'', [Fin 50, Fin 5])]"
  by (simp add: line_named_def point_at_def extract_A_def col_init_def tag_excluded_def
      extract_axes_def project_def col_append_def num_eval)
    (simp add: lit_def)

text \<open>
  Claim C5 as stated fails: two axis lines named \<open>X\<close> and one point. The parser keeps
  both axes, and the output of \<^verbatim>\<open>extract\<close> has one column \<open>X\<close>, which holds two
  values for the one qualifying point.
\<close>

theorem duplicate_names_counterexample:
  "getaxes
     [line_named ''X: 0 100'' (PyInt 0, PyInt 0) (PyInt 10, PyInt 0),
      line_named ''X: 0 10'' (PyInt 0, PyInt 0) (PyInt 10, PyInt 0),
      point_at (PyInt 5) (PyInt 0)] =
   Inr [\<lparr>ax_name = lit ''X'', ax_r0 = (PyInt 0, PyInt 0), ax_r1 = (PyInt 10, PyInt 0),
       ax_islog = False, ax_delta = (PyInt 10, PyInt 0), ax_l2 = PyInt 100, ax_l = Fin 10,
       ax_a = Fin 0, ax_b = Fin 100\<rparr>,
      \<lparr>ax_name = lit ''X'', ax_r0 = (PyInt 0, PyInt 0), ax_r1 = (PyInt 10, PyInt 0),
       ax_islog = False, ax_delta = (PyInt 10, PyInt 0), ax_l2 = PyInt 100, ax_l = Fin 10,
       ax_a = Fin 0, ax_b = Fin 10\<rparr>] \<and>
   extract_A
     [line_named ''X: 0 100'' (PyInt 0, PyInt 0) (PyInt 10, PyInt 0),
      line_named ''X: 0 10'' (PyInt 0, PyInt 0) (PyInt 10, PyInt 0),
      point_at (PyInt 5) (PyInt 0)]
     [\<lparr>ax_name = lit ''X'', ax_r0 = (PyInt 0, PyInt 0), ax_r1 = (PyInt 10, PyInt 0),
       ax_islog = False, ax_delta = (PyInt 10, PyInt 0), ax_l2 = PyInt 100, ax_l = Fin 10,
       ax_a = Fin 0, ax_b = Fin 100\<rparr>,
      \<lparr>ax_name = lit ''X'', ax_r0 = (PyInt 0, PyInt 0), ax_r1 = (PyInt 10, PyInt 0),
       ax_islog = False, ax_delta = (PyInt 10, PyInt 0), ax_l2 = PyInt 100, ax_l = Fin 10,
       ax_a = Fin 0, ax_b = Fin 10\<rparr>] None =
   Inr [(lit ''X'', [Fin 50, Fin 5])] \<and>
   length (filter (qualifies (lit ''point'') None)
     [line_named ''X: 0 100'' (PyInt 0, PyInt 0) (PyInt 10, PyInt 0),
      line_named ''X: 0 10'' (PyInt 0, PyInt 0) (PyInt 10, PyInt 0),
      point_at (PyInt 5) (PyInt 0)]) = 1"
  by (simp add: getaxes_two_X extract_A_two_X)
    (simp add: qualifies_def line_named_def point_at_def tag_excluded_def lit_def)

text \<open>
  Claim C5, amended. The parsers keep every calibration, in the order of the input, also
  when names repeat. The output of \<^verbatim>\<open>extract\<close> is a dictionary keyed by name: it has
  one column for each name, and the column of a name holds, for the qualifying
  annotations in the order of the input, the values of the calibrations of that name in
  the order of the calibrations (two calibrations of one name: for each qualifying
  annotation the value on the first and then the value on the second).
\<close>

theorem duplicate_names_one_column:
  "(getaxes data = Inr axes \<longrightarrow> map ax_name axes = List.map_filter axis_name_of data) \<and>
   (getscales data = Inr scales \<longrightarrow> map sc_name scales = List.map_filter scale_name_of data) \<and>
   (extract_A data axes tag = Inr col \<longrightarrow>
      distinct (map fst col) \<and> set (map fst col) = set (map ax_name axes) \<and>
      (\<forall>k vs. map_of col k = Some vs \<longrightarrow>
         length vs = length (filter (qualifies (lit ''point'') tag) data) *
                     length (filter (\<lambda>ax. ax_name ax = k) axes) \<and>
         map Inr vs =
           concat (map (\<lambda>it. map (\<lambda>ax. project ax (it_coords it))
                                   (filter (\<lambda>ax. ax_name ax = k) axes))
                       (filter (qualifies (lit ''point'') tag) data)))) \<and>
   (extract_B data scales tag = Inr (names, col') \<longrightarrow>
      distinct (map fst col') \<and> set (map fst col') = set (map sc_name scales) \<and>
      (\<forall>k vs. map_of col' k = Some vs \<longrightarrow>
         length vs = length (filter (qualifies (lit ''line'') tag) data) *
                     length (filter (\<lambda>sc. sc_name sc = k) scales) \<and>
         map Inr vs =
           concat (map (\<lambda>it. map (\<lambda>sc. measure_line sc (it_coords it))
                                   (filter (\<lambda>sc. sc_name sc = k) scales))
                       (filter (qualifies (lit ''line'') tag) data))))"
proof (intro conjI impI allI)
  assume "getaxes data = Inr axes"
  then show "map ax_name axes = List.map_filter axis_name_of data"
    using getaxes_loop_names [of data "[]" axes] by (simp add: getaxes_def)
next
  assume "getscales data = Inr scales"
  then show "map sc_name scales = List.map_filter scale_name_of data"
    using getscales_loop_names [of data "[]" scales] by (simp add: getscales_def)
next
  assume e: "extract_A data axes tag = Inr col"
  show "distinct (map fst col)" by (rule extract_A_keys(1) [OF e])
  show "set (map fst col) = set (map ax_name axes)" by (rule extract_A_keys(2) [OF e])
  fix k vs assume m: "map_of col k = Some vs"
  from e m show "length vs = length (filter (qualifies (lit ''point'') tag) data) *
                     length (filter (\<lambda>ax. ax_name ax = k) axes)"
    by (rule extract_A_column_length)
  from e m show "map Inr vs =
           concat (map (\<lambda>it. map (\<lambda>ax. project ax (it_coords it))
                                   (filter (\<lambda>ax. ax_name ax = k) axes))
                       (filter (qualifies (lit ''point'') tag) data))"
    by (rule extract_A_columns)
next
  assume e: "extract_B data scales tag = Inr (names, col')"
  show "distinct (map fst col')" by (rule extract_B_keys(1) [OF e])
  show "set (map fst col') = set (map sc_name scales)" by (rule extract_B_keys(2) [OF e])
  fix k vs assume m: "map_of col' k = Some vs"
  from e m show "length vs = length (filter (qualifies (lit ''line'') tag) data) *
                     length (filter (\<lambda>sc. sc_name sc = k) scales)"
    by (rule extract_B_column_length)
  from e m show "map Inr vs =
           concat (map (\<lambda>it. map (\<lambda>sc. measure_line sc (it_coords it))
                                   (filter (\<lambda>sc. sc_name sc = k) scales))
                       (filter (qualifies (lit ''line'') tag) data))"
    by (rule extract_B_columns)
qed

theorem duplicate_names_one_column_witness:
  "List.map_filter axis_name_of
     [line_named ''X: 0 100'' (PyInt 0, PyInt 0) (PyInt 10, PyInt 0),
      line_named ''X: 0 10'' (PyInt 0, PyInt 0) (PyInt 10, PyInt 0),
      point_at (PyInt 5) (PyInt 0)] = [lit ''X'', lit ''X''] \<and>
   length (filter (qualifies (lit ''point'') None)
     [line_named ''X: 0 100'' (PyInt 0, PyInt 0) (PyInt 10, PyInt 0),
      line_named ''X: 0 10'' (PyInt 0, PyInt 0) (PyInt 10, PyInt 0),
      point_at (PyInt 5) (PyInt 0)]) *
   length (filter (\<lambda>ax. ax_name ax = lit ''X'')
     [\<lparr>ax_name = lit ''X'', ax_r0 = (PyInt 0, PyInt 0), ax_r1 = (PyInt 10, PyInt 0),
       ax_islog = False, ax_delta = (PyInt 10, PyInt 0), ax_l2 = PyInt 100, ax_l = Fin 10,
       ax_a = Fin 0, ax_b = Fin 100\<rparr>,
      \<lparr>ax_name = lit ''X'', ax_r0 = (PyInt 0, PyInt 0), ax_r1 = (PyInt 10, PyInt 0),
       ax_islog = False, ax_delta = (PyInt 10, PyInt 0), ax_l2 = PyInt 100, ax_l = Fin 10,
       ax_a = Fin 0, ax_b = Fin 10\<rparr>]) = 2 \<and>
   map Inr [Fin 50, Fin 5] =
     concat (map (\<lambda>it. map (\<lambda>ax. project ax (it_coords it))
                            (filter (\<lambda>ax. ax_name ax = lit ''X'')
     [\<lparr>ax_name = lit ''X'', ax_r0 = (PyInt 0, PyInt 0), ax_r1 = (PyInt 10, PyInt 0),
       ax_islog = False, ax_delta = (PyInt 10, PyInt 0), ax_l2 = PyInt 100, ax_l = Fin 10,
       ax_a = Fin 0, ax_b = Fin 100\<rparr>,
      \<lparr>ax_name = lit ''X'', ax_r0 = (PyInt 0, PyInt 0), ax_r1 = (PyInt 10, PyInt 0),
       ax_islog = False, ax_delta = (PyInt 10, PyInt 0), ax_l2 = PyInt 100, ax_l = Fin 10,
       ax_a = Fin 0, ax_b = Fin 10\<rparr>]))
                 (filter (qualifies (lit ''point'') None)
     [line_named ''X: 0 100'' (PyInt 0, PyInt 0) (PyInt 10, PyInt 0),
      line_named ''X: 0 10'' (PyInt 0, PyInt 0) (PyInt 10, PyInt 0),
      point_at (PyInt 5) (PyInt 0)]))"
proof -
  let ?data = "[line_named ''X: 0 100'' (PyInt 0, PyInt 0) (PyInt 10, PyInt 0),
      line_named ''X: 0 10'' (PyInt 0, PyInt 0) (PyInt 10, PyInt 0),
      point_at (PyInt 5) (PyInt 0)]"
  let ?axes = "[\<lparr>ax_name = lit ''X'', ax_r0 = (PyInt 0, PyInt 0), ax_r1 = (PyInt 10, PyInt 0),
       ax_islog = False, ax_delta = (PyInt 10, PyInt 0), ax_l2 = PyInt 100, ax_l = Fin 10,
       ax_a = Fin 0, ax_b = Fin 100\<rparr>,
      \<lparr>ax_name = lit ''X'', ax_r0 = (PyInt 0, PyInt 0), ax_r1 = (PyInt 10, PyInt 0),
       ax_islog = False, ax_delta = (PyInt 10, PyInt 0), ax_l2 = PyInt 100, ax_l = Fin 10,
       ax_a = Fin 0, ax_b = Fin 10\<rparr>]"
  note t = duplicate_names_one_column [where data = ?data and axes = ?axes and tag = None
      and col = "[(lit ''X'', [Fin 50, Fin 5])]"]
  from t getaxes_two_X have 1: "map ax_name ?axes = List.map_filter axis_name_of ?data"
    by blast
  from t extract_A_two_X have
    "\<forall>k vs. map_of [(lit ''X'', [Fin 50, Fin 5])] k = Some vs \<longrightarrow>
       length vs = length (filter (qualifies (lit ''point'') None) ?data) *
                   length (filter (\<lambda>ax. ax_name ax = k) ?axes) \<and>
       map Inr vs =
           concat (map (\<lambda>it. map (\<lambda>ax. project ax (it_coords it))
                                   (filter (\<lambda>ax. ax_name ax = k) ?axes))
                       (filter (qualifies (lit ''point'') None) ?data))"
    by blast
  moreover have "map_of [(lit ''X'', [Fin 50, Fin 5])] (lit ''X'') = Some [Fin 50, Fin 5]"
    by simp
  ultimately have 2: "length [Fin 50, Fin 5] =
        length (filter (qualifies (lit ''point'') None) ?data) *
        length (filter (\<lambda>ax. ax_name ax = lit ''X'') ?axes) \<and>
      map Inr [Fin 50, Fin 5] =
        concat (map (\<lambda>it. map (\<lambda>ax. project ax (it_coords it))
                                (filter (\<lambda>ax. ax_name ax = lit ''X'') ?axes))
                    (filter (qualifies (lit ''point'') None) ?data))"
    by blast
  have 3: "List.map_filter axis_name_of ?data = [lit ''X'', lit ''X'']"
    by (simp only: 1 [symmetric]) simp
  have "length (filter (qualifies (lit ''point'') None) ?data) *
          length (filter (\<lambda>ax. ax_name ax = lit ''X'') ?axes) = length [Fin 50, Fin 5]"
    using 2 by simp
  also have "\<dots> = 2" by simp
  finally have 4: "length (filter (qualifies (lit ''point'') None) ?data) *
          length (filter (\<lambda>ax. ax_name ax = lit ''X'') ?axes) = 2" .
  from 2 3 4 show ?thesis by blast
qed

section \<open>Calibration lines of length zero\<close>

lemma to_float_zero: "num_is_zero z \<Longrightarrow> to_float z = Inr (Fin 0)"
  by (auto simp: num_is_zero_def rnd_0)

lemma math_sqrt_num_zero: "num_is_zero z \<Longrightarrow> math_sqrt_num z = Inr (Fin 0)"
  by (simp add: math_sqrt_num_def to_float_zero rnd_0)

lemma degenerate_Inr: "degenerate r0 r1 \<longleftrightarrow> (\<exists>z. sq_dist r0 r1 = Inr z \<and> num_is_zero z)"
  by (simp add: degenerate_def split: sum.splits)

lemma num_sub_same: "finite_num x \<Longrightarrow> num_sub x x = Inr (PyInt 0) \<or> num_sub x x = Inr (PyFloat (Fin 0))"
  by (cases x rule: finite_num.cases) (simp_all add: fsub_def rnd_0)

lemma degenerate_same: "finite_vec r \<Longrightarrow> degenerate r r"
proof -
  assume f: "finite_vec r"
  from f num_sub_same [of "fst r"] num_sub_same [of "snd r"] show ?thesis
    by (auto simp: finite_vec_def degenerate_def sq_dist_def num_is_zero_def rnd_0)
qed

lemma sq_dist_vec_sub: "sq_dist r0 r1 = Inr z \<Longrightarrow> \<exists>d. vec_sub r1 r0 = Inr d"
  by (auto simp: sq_dist_def vec_sub_def ebind_eq_Inr)

lemma Axis_init_Inr_iff:
  "(\<exists>ax. Axis_init name r0 r1 a b islog = Inr ax) \<longleftrightarrow>
     (\<exists>l. ebind (sq_dist r0 r1) math_sqrt_num = Inr l) \<and>
     (islog \<longrightarrow> (\<exists>a'. math_log a = Inr a') \<and> (\<exists>b'. math_log b = Inr b'))"
proof
  assume "\<exists>ax. Axis_init name r0 r1 a b islog = Inr ax"
  then show "(\<exists>l. ebind (sq_dist r0 r1) math_sqrt_num = Inr l) \<and>
     (islog \<longrightarrow> (\<exists>a'. math_log a = Inr a') \<and> (\<exists>b'. math_log b = Inr b'))"
    by (auto simp: Axis_init_def ebind_eq_Inr split: if_splits)
next
  assume a: "(\<exists>l. ebind (sq_dist r0 r1) math_sqrt_num = Inr l) \<and>
     (islog \<longrightarrow> (\<exists>a'. math_log a = Inr a') \<and> (\<exists>b'. math_log b = Inr b'))"
  then obtain z l where z: "sq_dist r0 r1 = Inr z" and l: "math_sqrt_num z = Inr l"
    by (auto simp: ebind_eq_Inr)
  from sq_dist_vec_sub [OF z] obtain d where d: "vec_sub r1 r0 = Inr d" ..
  from a z l d show "\<exists>ax. Axis_init name r0 r1 a b islog = Inr ax"
    by (cases islog) (auto simp: Axis_init_def)
qed

lemma Axis_init_l2: "Axis_init name r0 r1 a b islog = Inr ax \<Longrightarrow>
    sq_dist r0 r1 = Inr (ax_l2 ax) \<and> math_sqrt_num (ax_l2 ax) = Inr (ax_l ax)"
  by (auto simp: Axis_init_def ebind_eq_Inr)

lemma Axis_init_degenerate:
  assumes "degenerate r0 r1"
  shows "(\<exists>ax. Axis_init name r0 r1 a b islog = Inr ax \<and> num_is_zero (ax_l2 ax) \<and> ax_l ax = Fin 0) \<longleftrightarrow>
     (islog \<longrightarrow> (\<exists>a'. math_log a = Inr a') \<and> (\<exists>b'. math_log b = Inr b'))"
proof -
  from assms obtain z where z: "sq_dist r0 r1 = Inr z" and n: "num_is_zero z"
    by (auto simp: degenerate_Inr)
  have g: "\<exists>l. ebind (sq_dist r0 r1) math_sqrt_num = Inr l"
    by (simp add: z math_sqrt_num_zero [OF n])
  have "\<And>ax. Axis_init name r0 r1 a b islog = Inr ax \<Longrightarrow> num_is_zero (ax_l2 ax) \<and> ax_l ax = Fin 0"
  proof -
    fix ax assume "Axis_init name r0 r1 a b islog = Inr ax"
    from Axis_init_l2 [OF this] z n math_sqrt_num_zero [OF n]
    show "num_is_zero (ax_l2 ax) \<and> ax_l ax = Fin 0" by auto
  qed
  then have "(\<exists>ax. Axis_init name r0 r1 a b islog = Inr ax \<and> num_is_zero (ax_l2 ax) \<and> ax_l ax = Fin 0) \<longleftrightarrow>
      (\<exists>ax. Axis_init name r0 r1 a b islog = Inr ax)"
    by blast
  with g show ?thesis by (simp add: Axis_init_Inr_iff)
qed

lemma project_l2_zero: "num_is_zero (ax_l2 ax) \<Longrightarrow> project ax c \<noteq> Inr v"
  by (cases c) (auto simp: project_def ebind_eq_Inr fdiv_num_def fdiv_def to_float_zero)

lemma project_degenerate:
  "num_is_zero (ax_l2 ax) \<Longrightarrow> dot_delta ax c0 c1 = Inr d \<Longrightarrow> to_float d = Inr df \<Longrightarrow>
     project ax (PointC c0 c1) = Inl ZeroDivisionError"
  by (simp add: project_def fmul_num_def fdiv_num_def fdiv_def to_float_zero)

lemma to_float_error: "to_float x = Inl e \<Longrightarrow> e = OverflowError"
  by (cases x) (auto split: pyfloat.splits)

lemma ebind_eq_Inl: "ebind m f = Inl e \<longleftrightarrow> m = Inl e \<or> (\<exists>x. m = Inr x \<and> f x = Inl e)"
  by (cases m) simp_all

lemma num_sub_error: "num_sub x y = Inl e \<Longrightarrow> e = OverflowError"
  by (cases "(x, y)" rule: num_sub.cases) (auto simp: ebind_eq_Inl dest: to_float_error)

lemma num_mul_error: "num_mul x y = Inl e \<Longrightarrow> e = OverflowError"
  by (cases "(x, y)" rule: num_mul.cases) (auto simp: ebind_eq_Inl dest: to_float_error)

lemma num_add_error: "num_add x y = Inl e \<Longrightarrow> e = OverflowError"
  by (cases "(x, y)" rule: num_add.cases) (auto simp: ebind_eq_Inl dest: to_float_error)

lemma dot_delta_error: "dot_delta ax c0 c1 = Inl e \<Longrightarrow> e = OverflowError"
  by (auto simp: dot_delta_def ebind_eq_Inl dest: num_sub_error num_mul_error num_add_error)

lemma project_degenerate_error:
  assumes "num_is_zero (ax_l2 ax)"
  shows "project ax (PointC c0 c1) = Inl ZeroDivisionError \<or>
         project ax (PointC c0 c1) = Inl OverflowError"
proof (cases "dot_delta ax c0 c1")
  case (Inl e)
  with dot_delta_error [of ax c0 c1 e] show ?thesis by (simp add: project_def)
next
  case (Inr d)
  show ?thesis
  proof (cases "to_float d")
    case (Inl e)
    with to_float_error [of d e] Inr show ?thesis by (simp add: project_def fmul_num_def)
  next
    case (Inr df)
    with \<open>dot_delta ax c0 c1 = Inr d\<close> assms show ?thesis by (simp add: project_degenerate)
  qed
qed

lemma Axis_B_init_degenerate:
  "degenerate r0 r1 \<Longrightarrow> Axis_B_init name r0 r1 physlen = Inl ZeroDivisionError"
proof -
  assume "degenerate r0 r1"
  then obtain z where z: "sq_dist r0 r1 = Inr z" and n: "num_is_zero z"
    by (auto simp: degenerate_Inr)
  from sq_dist_vec_sub [OF z] obtain d where d: "vec_sub r1 r0 = Inr d" ..
  show ?thesis
    by (simp add: Axis_B_init_def d z math_sqrt_num_zero [OF n] fdiv_def)
qed


text \<open>
  Claim C6 as stated fails in pipeline B: the constructor of a scale divides by the
  length of its line, so a scale line whose endpoints coincide raises at construction,
  inside \<^verbatim>\<open>getscales\<close>.
\<close>

theorem scale_construction_counterexample:
  "Axis_B_init (lit ''S'') (PyInt 1, PyInt 1) (PyInt 1, PyInt 1) (Fin 10) =
     Inl ZeroDivisionError \<and>
   getscales [line_named ''S: 10'' (PyInt 1, PyInt 1) (PyInt 1, PyInt 1)] =
     Inl ZeroDivisionError"
  by (simp add: getscales_def getscales_item_def line_named_def scale_match_S_10 float_py_10
      Axis_B_init_def num_eval)

text \<open>
  Claim C6, amended. A line whose endpoints coincide, with finite coordinates, has
  \<open>l2 == 0\<close>. In pipeline A an axis with \<open>l2 == 0\<close> is constructed exactly when the
  logarithms of a logarithmic axis can be taken, which is when an axis with any other
  endpoints of computable length is constructed; the parser appends it; the division by
  zero arises in the projector, for each point projected on it (unless the numerator
  already overflows), so that \<^verbatim>\<open>extract\<close> returns only when no point qualifies. In
  pipeline B the constructor itself raises \<^verbatim>\<open>ZeroDivisionError\<close>, and \<^verbatim>\<open>getscales\<close>
  with it.
\<close>

theorem degenerate_calibration:
  "(finite_vec r \<longrightarrow> degenerate r r) \<and>
   (degenerate q0 q1 \<longrightarrow>
      ((\<exists>ax. Axis_init name q0 q1 a b islog = Inr ax \<and> num_is_zero (ax_l2 ax) \<and>
             ax_l ax = Fin 0) \<longleftrightarrow>
       (islog \<longrightarrow> (\<exists>a'. math_log a = Inr a') \<and> (\<exists>b'. math_log b = Inr b')))) \<and>
   (degenerate q0 q1 \<and> (\<exists>l. ebind (sq_dist r0 r1) math_sqrt_num = Inr l) \<longrightarrow>
      ((\<exists>ax. Axis_init name q0 q1 a b islog = Inr ax \<and> num_is_zero (ax_l2 ax)) \<longleftrightarrow>
       (\<exists>ax. Axis_init name r0 r1 a b islog = Inr ax))) \<and>
   (it_type it = lit ''line'' \<and> axis_match (it_name it) = Some (n, ta, tb, []) \<and>
      float_py ta = Inr a \<and> float_py tb = Inr b \<and> it_coords it = LineC q0 q1 \<and>
      degenerate q0 q1 \<longrightarrow>
      (\<exists>ax. getaxes_loop (it # rest) axes = getaxes_loop rest (axes @ [ax]) \<and>
            num_is_zero (ax_l2 ax))) \<and>
   (num_is_zero (ax_l2 ax) \<longrightarrow>
      (project ax (PointC c0 c1) = Inl ZeroDivisionError \<or>
       project ax (PointC c0 c1) = Inl OverflowError) \<and>
      (dot_delta ax c0 c1 = Inr d \<and> to_float d = Inr df \<longrightarrow>
         project ax (PointC c0 c1) = Inl ZeroDivisionError)) \<and>
   (num_is_zero (ax_l2 ax) \<and> ax \<in> set axes \<and> extract_A data axes tag = Inr col \<longrightarrow>
      filter (qualifies (lit ''point'') tag) data = []) \<and>
   (degenerate q0 q1 \<longrightarrow> Axis_B_init name q0 q1 physlen = Inl ZeroDivisionError) \<and>
   (it_type it = lit ''line'' \<and> scale_match (it_name it) = Some (n, tlen) \<and>
      float_py tlen = Inr physlen \<and> it_coords it = LineC q0 q1 \<and> degenerate q0 q1 \<longrightarrow>
      getscales_loop (it # rest) scales = Inl ZeroDivisionError)"
proof (intro conjI impI)
  assume "finite_vec r"
  then show "degenerate r r" by (rule degenerate_same)
next
  assume "degenerate q0 q1"
  then show "(\<exists>ax. Axis_init name q0 q1 a b islog = Inr ax \<and> num_is_zero (ax_l2 ax) \<and>
             ax_l ax = Fin 0) \<longleftrightarrow>
       (islog \<longrightarrow> (\<exists>a'. math_log a = Inr a') \<and> (\<exists>b'. math_log b = Inr b'))"
    by (rule Axis_init_degenerate)
next
  assume a: "degenerate q0 q1 \<and> (\<exists>l. ebind (sq_dist r0 r1) math_sqrt_num = Inr l)"
  then have "(\<exists>ax. Axis_init name r0 r1 a b islog = Inr ax) \<longleftrightarrow>
       (islog \<longrightarrow> (\<exists>a'. math_log a = Inr a') \<and> (\<exists>b'. math_log b = Inr b'))"
    by (simp add: Axis_init_Inr_iff)
  moreover from a have "(\<exists>ax. Axis_init name q0 q1 a b islog = Inr ax \<and>
        num_is_zero (ax_l2 ax) \<and> ax_l ax = Fin 0) \<longleftrightarrow>
       (islog \<longrightarrow> (\<exists>a'. math_log a = Inr a') \<and> (\<exists>b'. math_log b = Inr b'))"
    by (simp add: Axis_init_degenerate)
  ultimately show "(\<exists>ax. Axis_init name q0 q1 a b islog = Inr ax \<and> num_is_zero (ax_l2 ax)) \<longleftrightarrow>
       (\<exists>ax. Axis_init name r0 r1 a b islog = Inr ax)"
    by (metis Axis_init_Inr_iff)
next
  assume a: "it_type it = lit ''line'' \<and> axis_match (it_name it) = Some (n, ta, tb, []) \<and>
      float_py ta = Inr a \<and> float_py tb = Inr b \<and> it_coords it = LineC q0 q1 \<and>
      degenerate q0 q1"
  then have "degenerate q0 q1" by simp
  from Axis_init_degenerate [OF this, of n a b False] obtain ax where
    ax: "Axis_init n q0 q1 a b False = Inr ax" and z: "num_is_zero (ax_l2 ax)"
    by auto
  from a ax have "getaxes_item it = Inr (Some ax)"
    by (simp add: getaxes_item_def lit_L)
  then have "getaxes_loop (it # rest) axes = getaxes_loop rest (axes @ [ax])"
    by simp
  with z show "\<exists>ax. getaxes_loop (it # rest) axes = getaxes_loop rest (axes @ [ax]) \<and>
      num_is_zero (ax_l2 ax)"
    by blast
next
  assume "num_is_zero (ax_l2 ax)"
  then show "project ax (PointC c0 c1) = Inl ZeroDivisionError \<or>
       project ax (PointC c0 c1) = Inl OverflowError"
    by (rule project_degenerate_error)
next
  assume "num_is_zero (ax_l2 ax)" and "dot_delta ax c0 c1 = Inr d \<and> to_float d = Inr df"
  then show "project ax (PointC c0 c1) = Inl ZeroDivisionError"
    by (simp add: project_degenerate)
next
  assume a: "num_is_zero (ax_l2 ax) \<and> ax \<in> set axes \<and> extract_A data axes tag = Inr col"
  then have loop: "extract_loop data axes tag (col_init (map ax_name axes)) = Inr col"
    by (simp add: extract_A_def)
  have "\<not> (\<exists>it\<in>set data. qualifies (lit ''point'') tag it)"
  proof
    assume "\<exists>it\<in>set data. qualifies (lit ''point'') tag it"
    then obtain q where "q \<in> set data" "qualifies (lit ''point'') tag q" by blast
    with extract_loop_ok [OF loop] a obtain v where "project ax (it_coords q) = Inr v"
      by blast
    with a project_l2_zero [of ax] show False by blast
  qed
  then show "filter (qualifies (lit ''point'') tag) data = []"
    by (simp add: filter_empty_conv)
next
  assume "degenerate q0 q1"
  then show "Axis_B_init name q0 q1 physlen = Inl ZeroDivisionError"
    by (rule Axis_B_init_degenerate)
next
  assume "it_type it = lit ''line'' \<and> scale_match (it_name it) = Some (n, tlen) \<and>
      float_py tlen = Inr physlen \<and> it_coords it = LineC q0 q1 \<and> degenerate q0 q1"
  then have "getscales_item it = Inl ZeroDivisionError"
    by (simp add: getscales_item_def Axis_B_init_degenerate)
  then show "getscales_loop (it # rest) scales = Inl ZeroDivisionError"
    by simp
qed

theorem degenerate_calibration_witness:
  "degenerate (PyInt 1, PyInt 1) (PyInt 1, PyInt 1) \<and>
   (\<exists>ax. Axis_init (lit ''X'') (PyInt 1, PyInt 1) (PyInt 1, PyInt 1) (Fin 0) (Fin 100) False =
           Inr ax \<and> num_is_zero (ax_l2 ax)) \<and>
   (\<exists>ax. getaxes [line_named ''X: 0 100'' (PyInt 1, PyInt 1) (PyInt 1, PyInt 1)] = Inr [ax] \<and>
         num_is_zero (ax_l2 ax)) \<and>
   project \<lparr>ax_name = lit ''X'', ax_r0 = (PyInt 1, PyInt 1), ax_r1 = (PyInt 1, PyInt 1),
            ax_islog = False, ax_delta = (PyInt 0, PyInt 0), ax_l2 = PyInt 0, ax_l = Fin 0,
            ax_a = Fin 0, ax_b = Fin 100\<rparr> (PointC (PyInt 5) (PyInt 0)) =
     Inl ZeroDivisionError \<and>
   filter (qualifies (lit ''point'') None)
     [line_named ''X: 0 100'' (PyInt 1, PyInt 1) (PyInt 1, PyInt 1)] = [] \<and>
   getscales_loop [line_named ''S: 10'' (PyInt 1, PyInt 1) (PyInt 1, PyInt 1)] [] =
     Inl ZeroDivisionError"
proof -
  let ?r = "(PyInt 1, PyInt 1)"
  let ?it = "line_named ''X: 0 100'' ?r ?r"
  let ?ax = "\<lparr>ax_name = lit ''X'', ax_r0 = (PyInt 1, PyInt 1), ax_r1 = (PyInt 1, PyInt 1),
            ax_islog = False, ax_delta = (PyInt 0, PyInt 0), ax_l2 = PyInt 0, ax_l = Fin 0,
            ax_a = Fin 0, ax_b = Fin 100\<rparr>"
  let ?sl = "line_named ''S: 10'' ?r ?r"
  note t = degenerate_calibration [where r = ?r and ?q0.0 = ?r and ?q1.0 = ?r
      and name = "lit ''X''" and a = "Fin 0" and b = "Fin 100" and islog = False
      and ?r0.0 = "(PyInt 0, PyInt 0)" and ?r1.0 = "(PyInt 10, PyInt 0)"]
  have f: "finite_vec ?r" by (simp add: finite_vec_def)
  from t f have 1: "degenerate ?r ?r" by blast
  have g: "\<exists>l. ebind (sq_dist (PyInt 0, PyInt 0) (PyInt 10, PyInt 0)) math_sqrt_num = Inr l"
    by (simp add: num_eval sqrt_100)
  have "\<exists>ax. Axis_init (lit ''X'') (PyInt 0, PyInt 0) (PyInt 10, PyInt 0) (Fin 0) (Fin 100) False =
      Inr ax"
    by (simp add: Axis_init_def num_eval sqrt_100)
  with t 1 g have 2: "\<exists>ax. Axis_init (lit ''X'') ?r ?r (Fin 0) (Fin 100) False = Inr ax \<and>
      num_is_zero (ax_l2 ax)"
    by blast
  have h1: "it_type ?it = lit ''line'' \<and>
      axis_match (it_name ?it) = Some (lit ''X'', lit ''0'', lit ''100'', []) \<and>
      float_py (lit ''0'') = Inr (Fin 0) \<and> float_py (lit ''100'') = Inr (Fin 100) \<and>
      it_coords ?it = LineC ?r ?r"
    by (simp add: line_named_def axis_match_X_0_100 float_py_0 float_py_100)
  from t [where it = ?it and n = "lit ''X''" and ta = "lit ''0''" and tb = "lit ''100''"
      and rest = "[]" and axes = "[]"] h1 1
  have 3: "\<exists>ax. getaxes [?it] = Inr [ax] \<and> num_is_zero (ax_l2 ax)"
    by (simp add: getaxes_def)
  have h2: "num_is_zero (ax_l2 ?ax) \<and> dot_delta ?ax (PyInt 5) (PyInt 0) = Inr (PyInt 0) \<and>
      to_float (PyInt 0) = Inr (Fin 0)"
    by (simp add: num_is_zero_def num_eval)
  from t [where ax = ?ax and ?c0.0 = "PyInt 5" and ?c1.0 = "PyInt 0" and d = "PyInt 0"
      and df = "Fin 0"] h2
  have 4: "project ?ax (PointC (PyInt 5) (PyInt 0)) = Inl ZeroDivisionError"
    by blast
  have h3: "num_is_zero (ax_l2 ?ax) \<and> ?ax \<in> set [?ax] \<and> extract_A [?it] [?ax] None = Inr [(lit ''X'', [])]"
    by (simp add: num_is_zero_def extract_A_def col_init_def line_named_def lit_def)
  from t [where ax = ?ax and axes = "[?ax]" and data = "[?it]" and tag = None
      and col = "[(lit ''X'', [])]"] h3
  have 5: "filter (qualifies (lit ''point'') None) [?it] = []"
    by blast
  have h4: "it_type ?sl = lit ''line'' \<and>
      scale_match (it_name ?sl) = Some (lit ''S'', lit ''10'') \<and>
      float_py (lit ''10'') = Inr (Fin 10) \<and> it_coords ?sl = LineC ?r ?r"
    by (simp add: line_named_def scale_match_S_10 float_py_10)
  from t [where it = ?sl and n = "lit ''S''" and tlen = "lit ''10''" and physlen = "Fin 10"
      and rest = "[]" and scales = "[]"] h4 1
  have 6: "getscales_loop [?sl] [] = Inl ZeroDivisionError"
    by blast
  from 1 2 3 4 5 6 show ?thesis by blast
qed

section \<open>The exported text when nothing qualifies\<close>

lemma export_A_no_columns: "export_A fout [] = (fout, None)"
  by (simp add: export_A_def)

lemma export_B_no_columns: "export_B fout names [] = (fout, None)"
  by (simp add: export_B_def)

lemma export_A_header_only:
  assumes "col \<noteq> []" and "\<forall>k vs. map_of col k = Some vs \<longrightarrow> vs = []"
  shows "export_A fout col =
           (fout @ chars (join (lit '','') (map csv_sanitize (sort (map fst col))) @ lit ''\<newline>''), None)"
proof -
  from assms(1) have "sort (map fst col) \<noteq> []"
    by (metis length_0_conv length_map length_sort)
  then obtain k0 ks where keys: "sort (map fst col) = k0 # ks"
    by (cases "sort (map fst col)") simp_all
  then have "k0 \<in> set (sort (map fst col))" by simp
  then have "k0 \<in> fst ` set col" by simp
  then obtain vs where m: "map_of col k0 = Some vs"
    by (metis domD dom_map_of_conv_image_fst)
  with assms(2) have "vs = []" by blast
  with m keys show ?thesis
    by (simp add: export_A_def)
qed

lemma export_B_header_only:
  assumes "col \<noteq> []" and "\<forall>k vs. map_of col k = Some vs \<longrightarrow> vs = []"
  shows "export_B fout names col =
           (fout @ chars (lit ''name'' @ lit '','' @ join (lit '','') (map csv_sanitize (sort (map fst col))) @ lit ''\<newline>''),
            None)"
proof -
  from assms(1) have "sort (map fst col) \<noteq> []"
    by (metis length_0_conv length_map length_sort)
  then obtain k0 ks where keys: "sort (map fst col) = k0 # ks"
    by (cases "sort (map fst col)") simp_all
  then have "k0 \<in> set (sort (map fst col))" by simp
  then have "k0 \<in> fst ` set col" by simp
  then obtain vs where m: "map_of col k0 = Some vs"
    by (metis domD dom_map_of_conv_image_fst)
  with assms(2) have "vs = []" by blast
  with m keys show ?thesis
    by (simp add: export_B_def)
qed

lemma extract_A_no_axes: "extract_A data [] tag = Inr col \<Longrightarrow> col = []"
  using extract_A_keys(2) [of data "[]" tag col] by simp

lemma extract_B_no_scales: "extract_B data [] tag = Inr (names, col) \<Longrightarrow> col = []"
  using extract_B_keys(2) [of data "[]" tag names col] by simp

lemma extract_A_nonempty: "extract_A data axes tag = Inr col \<Longrightarrow> axes \<noteq> [] \<Longrightarrow> col \<noteq> []"
  using extract_A_keys(2) [of data axes tag col] by auto

lemma extract_B_nonempty: "extract_B data scales tag = Inr (names, col) \<Longrightarrow> scales \<noteq> [] \<Longrightarrow> col \<noteq> []"
  using extract_B_keys(2) [of data scales tag names col] by auto

text \<open>
  Claim C7 as stated fails: an input with one axis line and no point yields one empty
  column, and \<^verbatim>\<open>export\<close> writes the header row \<^verbatim>\<open>X\<close>.
\<close>

theorem header_without_rows_counterexample:
  "getaxes [line_named ''X: 0 100'' (PyInt 0, PyInt 0) (PyInt 10, PyInt 0)] =
     Inr [\<lparr>ax_name = lit ''X'', ax_r0 = (PyInt 0, PyInt 0), ax_r1 = (PyInt 10, PyInt 0),
       ax_islog = False, ax_delta = (PyInt 10, PyInt 0), ax_l2 = PyInt 100, ax_l = Fin 10,
       ax_a = Fin 0, ax_b = Fin 100\<rparr>] \<and>
   extract_A [line_named ''X: 0 100'' (PyInt 0, PyInt 0) (PyInt 10, PyInt 0)]
     [\<lparr>ax_name = lit ''X'', ax_r0 = (PyInt 0, PyInt 0), ax_r1 = (PyInt 10, PyInt 0),
       ax_islog = False, ax_delta = (PyInt 10, PyInt 0), ax_l2 = PyInt 100, ax_l = Fin 10,
       ax_a = Fin 0, ax_b = Fin 100\<rparr>] None =
     Inr [(lit ''X'', [])] \<and>
   export_A [] [(lit ''X'', [])] = (chars (lit ''X\<newline>''), None)"
  by (simp add: getaxes_X_0_100)
    (simp add: line_named_def extract_A_def col_init_def export_A_def chars_def csv_sanitize_def
      lit_def)

text \<open>
  Claim C7, amended. With no calibration the column set is empty and \<^verbatim>\<open>export\<close>
  writes nothing. With calibrations and no qualifying point or line, \<^verbatim>\<open>export\<close>
  writes the header row and no data row.
\<close>

theorem empty_output:
  "(extract_A data [] tag = Inr col \<longrightarrow> export_A fout col = (fout, None)) \<and>
   (extract_B data [] tag = Inr (names, col) \<longrightarrow> export_B fout names col = (fout, None)) \<and>
   (axes \<noteq> [] \<and> extract_A data axes tag = Inr col \<and> filter (qualifies (lit ''point'') tag) data = [] \<longrightarrow>
      export_A fout col =
        (fout @ chars (join (lit '','') (map csv_sanitize (sort (map fst col))) @ lit ''\<newline>''), None)) \<and>
   (scales \<noteq> [] \<and> extract_B data scales tag = Inr (names, col) \<and>
      filter (qualifies (lit ''line'') tag) data = [] \<longrightarrow>
      export_B fout names col =
        (fout @ chars (lit ''name'' @ lit '','' @ join (lit '','') (map csv_sanitize (sort (map fst col))) @ lit ''\<newline>''),
         None))"
proof (intro conjI impI)
  assume "extract_A data [] tag = Inr col"
  then have "col = []" by (rule extract_A_no_axes)
  then show "export_A fout col = (fout, None)"
    by (simp add: export_A_no_columns)
next
  assume "extract_B data [] tag = Inr (names, col)"
  then have "col = []" by (rule extract_B_no_scales)
  then show "export_B fout names col = (fout, None)"
    by (simp add: export_B_no_columns)
next
  assume a: "axes \<noteq> [] \<and> extract_A data axes tag = Inr col \<and>
      filter (qualifies (lit ''point'') tag) data = []"
  then have ne: "col \<noteq> []" using extract_A_nonempty [of data axes tag col] by blast
  have "\<forall>k vs. map_of col k = Some vs \<longrightarrow> vs = []"
    using a extract_A_column_length [of data axes tag col] by fastforce
  with ne show "export_A fout col =
        (fout @ chars (join (lit '','') (map csv_sanitize (sort (map fst col))) @ lit ''\<newline>''), None)"
    by (rule export_A_header_only)
next
  assume a: "scales \<noteq> [] \<and> extract_B data scales tag = Inr (names, col) \<and>
      filter (qualifies (lit ''line'') tag) data = []"
  then have ne: "col \<noteq> []" using extract_B_nonempty [of data scales tag names col] by blast
  have "\<forall>k vs. map_of col k = Some vs \<longrightarrow> vs = []"
    using a extract_B_column_length [of data scales tag names col] by fastforce
  with ne show "export_B fout names col =
        (fout @ chars (lit ''name'' @ lit '','' @ join (lit '','') (map csv_sanitize (sort (map fst col))) @ lit ''\<newline>''),
         None)"
    by (rule export_B_header_only)
qed

theorem empty_output_witness:
  "export_A [] [] = ([], None) \<and> export_A [] [(lit ''X'', [])] = (chars (lit ''X\<newline>''), None)"
proof -
  let ?data = "[line_named ''X: 0 100'' (PyInt 0, PyInt 0) (PyInt 10, PyInt 0)]"
  let ?ax = "\<lparr>ax_name = lit ''X'', ax_r0 = (PyInt 0, PyInt 0), ax_r1 = (PyInt 10, PyInt 0),
       ax_islog = False, ax_delta = (PyInt 10, PyInt 0), ax_l2 = PyInt 100, ax_l = Fin 10,
       ax_a = Fin 0, ax_b = Fin 100\<rparr>"
  have e0: "extract_A ?data [] None = Inr []"
    by (simp add: line_named_def extract_A_def col_init_def lit_def)
  have e1: "extract_A ?data [?ax] None = Inr [(lit ''X'', [])]"
    by (simp add: line_named_def extract_A_def col_init_def lit_def)
  have q: "filter (qualifies (lit ''point'') None) ?data = []"
    by (simp add: line_named_def qualifies_def lit_def)
  from empty_output [where data = ?data and tag = None and col = "[]" and fout = "[]"] e0 have 1: "export_A [] [] = ([], None)"
    by blast
  have "[?ax] \<noteq> [] \<and> extract_A ?data [?ax] None = Inr [(lit ''X'', [])] \<and>
      filter (qualifies (lit ''point'') None) ?data = []"
    using e1 q by simp
  with empty_output [where data = ?data and tag = None and col = "[(lit ''X'', [])]"
      and fout = "[]" and axes = "[?ax]"]
  have "export_A [] [(lit ''X'', [])] =
      ([] @ chars (join (lit '','') (map csv_sanitize (sort (map fst [(lit ''X'', [] :: pyfloat list)]))) @ lit ''\<newline>''), None)"
    by blast
  then have 2: "export_A [] [(lit ''X'', [])] = (chars (lit ''X\<newline>''), None)"
    by (simp add: csv_sanitize_def lit_def)
  from 1 2 show ?thesis by (rule conjI)
qed

section \<open>Pipeline B measures the calibration lines too\<close>

lemma contrib_member: "c \<in> set cs \<Longrightarrow> f c = Inr v \<Longrightarrow> nm c = k \<Longrightarrow> v \<in> set (contrib nm f k cs)"
  unfolding contrib_def by (auto intro!: bexI [of _ c])

lemma measure_line_InrD:
  "measure_line sc c = Inr v \<Longrightarrow>
     \<exists>c0 c1 s r. c = LineC c0 c1 \<and> sq_dist c0 c1 = Inr s \<and> math_sqrt_num s = Inr r \<and>
       v = fmul r (sc_unitperpx sc)"
  by (cases c) (auto simp: measure_line_def ebind_eq_Inr)

lemma extract_B_value_member:
  assumes e: "extract_B data scales tag = Inr (names, col)"
    and it: "it \<in> set data" "qualifies (lit ''line'') tag it" and sc: "sc \<in> set scales"
  shows "\<exists>c0 c1 s r vs. it_coords it = LineC c0 c1 \<and> sq_dist c0 c1 = Inr s \<and>
           math_sqrt_num s = Inr r \<and> map_of col (sc_name sc) = Some vs \<and>
           fmul r (sc_unitperpx sc) \<in> set vs"
proof -
  let ?Q = "filter (qualifies (lit ''line'') tag) data"
  let ?g = "\<lambda>it. contrib sc_name (\<lambda>sc. measure_line sc (it_coords it)) (sc_name sc) scales"
  from e have loop:
    "extract_B_loop data scales tag [] (col_init (map sc_name scales)) = Inr (names, col)"
    by (simp add: extract_B_def)
  from extract_B_loop_ok [OF loop it sc] obtain v where v: "measure_line sc (it_coords it) = Inr v"
    by blast
  from measure_line_InrD [OF v] obtain c0 c1 s r where c: "it_coords it = LineC c0 c1"
    and s: "sq_dist c0 c1 = Inr s" and r: "math_sqrt_num s = Inr r"
    and veq: "v = fmul r (sc_unitperpx sc)"
    by blast
  from sc have "map_of (col_init (map sc_name scales)) (sc_name sc) = Some []"
    by (simp add: col_init_map_of)
  with extract_B_loop_map_of [OF loop, of "sc_name sc"]
  have m: "map_of col (sc_name sc) = Some (concat (map ?g ?Q))"
    by simp
  have "v \<in> set (?g it)"
    using sc v
    by (rule contrib_member [of sc scales "\<lambda>sc. measure_line sc (it_coords it)" v sc_name]) simp
  moreover from it have "it \<in> set ?Q" by simp
  ultimately have "v \<in> set (concat (map ?g ?Q))" by auto
  with c s r m veq show ?thesis by blast
qed

lemma getscales_S_10_self:
  "getscales [line_named ''S: 10'' (PyInt 0, PyInt 0) (PyInt 5, PyInt 0)] =
     Inr [\<lparr>sc_name = lit ''S'', sc_r0 = (PyInt 0, PyInt 0), sc_r1 = (PyInt 5, PyInt 0),
       sc_delta = (PyInt 5, PyInt 0), sc_l2 = PyInt 25, sc_l = Fin 5, sc_physlen = Fin 10,
       sc_unitperpx = Fin 2\<rparr>]"
  by (simp add: getscales_def getscales_item_def line_named_def scale_match_S_10
      float_py_10 Axis_B_init_def num_eval sqrt_25)

lemma extract_B_S_10_self:
  "extract_B [line_named ''S: 10'' (PyInt 0, PyInt 0) (PyInt 5, PyInt 0)]
     [\<lparr>sc_name = lit ''S'', sc_r0 = (PyInt 0, PyInt 0), sc_r1 = (PyInt 5, PyInt 0),
       sc_delta = (PyInt 5, PyInt 0), sc_l2 = PyInt 25, sc_l = Fin 5, sc_physlen = Fin 10,
       sc_unitperpx = Fin 2\<rparr>] None =
   Inr ([lit ''S: 10''], [(lit ''S'', [Fin 10])])"
  by (simp add: line_named_def extract_B_def col_init_def tag_excluded_def
      extract_scales_def measure_line_def col_append_def num_eval sqrt_25)

text \<open>
  Claim C8. The measuring pass of pipeline B does not look at the grammar: the recorded
  names are the names of all the line annotations that pass the tag filter, in order, and
  a line annotation whose name matches the scale grammar and that passes the filter has
  its name recorded and its length measured against every scale, as any other line. The
  scale line \<^verbatim>\<open>S: 10\<close> is measured against itself.
\<close>

theorem calibration_lines_measured:
  assumes "extract_B data scales tag = Inr (names, col)"
  shows
    "names = map it_name (filter (\<lambda>it. it_type it = lit ''line'' \<and>
                                       tag_excluded tag it = Inr False) data) \<and>
     (\<forall>it\<in>set data. it_type it = lit ''line'' \<and> scale_name_of it \<noteq> None \<and>
        tag_excluded tag it = Inr False \<longrightarrow>
        it_name it \<in> set names \<and>
        (\<forall>sc\<in>set scales. \<exists>c0 c1 s r vs. it_coords it = LineC c0 c1 \<and> sq_dist c0 c1 = Inr s \<and>
           math_sqrt_num s = Inr r \<and> map_of col (sc_name sc) = Some vs \<and>
           fmul r (sc_unitperpx sc) \<in> set vs)) \<and>
     (\<exists>sc. getscales [line_named ''S: 10'' (PyInt 0, PyInt 0) (PyInt 5, PyInt 0)] = Inr [sc] \<and>
        extract_B [line_named ''S: 10'' (PyInt 0, PyInt 0) (PyInt 5, PyInt 0)] [sc] None =
          Inr ([lit ''S: 10''], [(lit ''S'', [Fin 10])]))"
proof (intro conjI ballI impI)
  have q: "qualifies (lit ''line'') tag =
      (\<lambda>it. it_type it = lit ''line'' \<and> tag_excluded tag it = Inr False)"
    by (rule ext) (simp add: qualifies_def)
  from extract_B_names [OF assms]
  show "names = map it_name (filter (\<lambda>it. it_type it = lit ''line'' \<and>
                                       tag_excluded tag it = Inr False) data)"
    by (simp only: q)
next
  fix it
  assume it: "it \<in> set data"
    and a: "it_type it = lit ''line'' \<and> scale_name_of it \<noteq> None \<and>
      tag_excluded tag it = Inr False"
  then have ql: "qualifies (lit ''line'') tag it" by (simp add: qualifies_def)
  with it extract_B_names [OF assms] show "it_name it \<in> set names" by simp
next
  fix it sc
  assume it: "it \<in> set data"
    and a: "it_type it = lit ''line'' \<and> scale_name_of it \<noteq> None \<and>
      tag_excluded tag it = Inr False"
    and sc: "sc \<in> set scales"
  from a have ql: "qualifies (lit ''line'') tag it" by (simp add: qualifies_def)
  from extract_B_value_member [OF assms it ql sc]
  show "\<exists>c0 c1 s r vs. it_coords it = LineC c0 c1 \<and> sq_dist c0 c1 = Inr s \<and>
           math_sqrt_num s = Inr r \<and> map_of col (sc_name sc) = Some vs \<and>
           fmul r (sc_unitperpx sc) \<in> set vs" .
next
  from getscales_S_10_self extract_B_S_10_self
  show "\<exists>sc. getscales [line_named ''S: 10'' (PyInt 0, PyInt 0) (PyInt 5, PyInt 0)] = Inr [sc] \<and>
        extract_B [line_named ''S: 10'' (PyInt 0, PyInt 0) (PyInt 5, PyInt 0)] [sc] None =
          Inr ([lit ''S: 10''], [(lit ''S'', [Fin 10])])"
    by blast
qed

theorem calibration_lines_measured_witness:
  "scale_name_of (line_named ''S: 10'' (PyInt 0, PyInt 0) (PyInt 5, PyInt 0)) = Some (lit ''S'') \<and>
   it_name (line_named ''S: 10'' (PyInt 0, PyInt 0) (PyInt 5, PyInt 0)) \<in> set [lit ''S: 10''] \<and>
   (\<exists>c0 c1 s r vs. it_coords (line_named ''S: 10'' (PyInt 0, PyInt 0) (PyInt 5, PyInt 0)) = LineC c0 c1 \<and>
      sq_dist c0 c1 = Inr s \<and> math_sqrt_num s = Inr r \<and>
      map_of [(lit ''S'', [Fin 10])] (lit ''S'') = Some vs \<and>
      fmul r (Fin 2) \<in> set vs)"
proof -
  let ?it = "line_named ''S: 10'' (PyInt 0, PyInt 0) (PyInt 5, PyInt 0)"
  let ?sc = "\<lparr>sc_name = lit ''S'', sc_r0 = (PyInt 0, PyInt 0), sc_r1 = (PyInt 5, PyInt 0),
       sc_delta = (PyInt 5, PyInt 0), sc_l2 = PyInt 25, sc_l = Fin 5, sc_physlen = Fin 10,
       sc_unitperpx = Fin 2\<rparr>"
  have n: "scale_name_of ?it = Some (lit ''S'')"
    by (simp add: scale_name_of_def line_named_def scale_match_S_10)
  have h: "it_type ?it = lit ''line'' \<and> scale_name_of ?it \<noteq> None \<and>
      tag_excluded None ?it = Inr False"
    by (simp add: n) (simp add: line_named_def tag_excluded_def)
  note t = calibration_lines_measured [OF extract_B_S_10_self]
  from t have "\<forall>it\<in>set [?it]. it_type it = lit ''line'' \<and> scale_name_of it \<noteq> None \<and>
        tag_excluded None it = Inr False \<longrightarrow>
        it_name it \<in> set [lit ''S: 10''] \<and>
        (\<forall>sc\<in>set [?sc]. \<exists>c0 c1 s r vs. it_coords it = LineC c0 c1 \<and>
           sq_dist c0 c1 = Inr s \<and> math_sqrt_num s = Inr r \<and>
           map_of [(lit ''S'', [Fin 10])] (sc_name sc) = Some vs \<and>
           fmul r (sc_unitperpx sc) \<in> set vs)"
    by blast
  with h have "it_name ?it \<in> set [lit ''S: 10''] \<and>
        (\<forall>sc\<in>set [?sc]. \<exists>c0 c1 s r vs. it_coords ?it = LineC c0 c1 \<and>
           sq_dist c0 c1 = Inr s \<and> math_sqrt_num s = Inr r \<and>
           map_of [(lit ''S'', [Fin 10])] (sc_name sc) = Some vs \<and>
           fmul r (sc_unitperpx sc) \<in> set vs)"
    by simp
  then have "it_name ?it \<in> set [lit ''S: 10''] \<and>
        (\<exists>c0 c1 s r vs. it_coords ?it = LineC c0 c1 \<and>
           sq_dist c0 c1 = Inr s \<and> math_sqrt_num s = Inr r \<and>
           map_of [(lit ''S'', [Fin 10])] (lit ''S'') = Some vs \<and>
           fmul r (Fin 2) \<in> set vs)"
    by simp
  with n show ?thesis by (rule conjI)
qed

section \<open>The tag filter and the tags key\<close>

lemma tag_excluded_no_filter:
  "tag = None \<or> tag = Some [] \<Longrightarrow> tag_excluded tag it = Inr False"
  by (auto simp: tag_excluded_def)

lemma tag_excluded_no_tags:
  "tag = Some t \<Longrightarrow> t \<noteq> [] \<Longrightarrow> it_tags it = None \<Longrightarrow> tag_excluded tag it = Inl KeyError"
  by (simp add: tag_excluded_def)

lemma extract_loop_append:
  "extract_loop pre axes tag col = Inr col1 \<Longrightarrow>
     extract_loop (pre @ rest) axes tag col = extract_loop rest axes tag col1"
proof (induction pre arbitrary: col)
  case Nil
  then show ?case by simp
next
  case (Cons it pre)
  then show ?case
    by (auto split: if_splits sum.splits bool.splits)
qed

lemma extract_B_loop_append:
  "extract_B_loop pre scales tag names col = Inr (names1, col1) \<Longrightarrow>
     extract_B_loop (pre @ rest) scales tag names col = extract_B_loop rest scales tag names1 col1"
proof (induction pre arbitrary: names col)
  case Nil
  then show ?case by simp
next
  case (Cons it pre)
  then show ?case
    by (auto split: if_splits sum.splits bool.splits)
qed

lemma extract_loop_missing_tags:
  assumes "t \<noteq> []" and "it \<in> set data" and "it_type it = lit ''point''" and "it_tags it = None"
  shows "\<exists>e. extract_loop data axes (Some t) col = Inl e"
  using assms(2)
proof (induction data arbitrary: col)
  case Nil
  then show ?case by simp
next
  case (Cons d rest)
  show ?case
  proof (cases "d = it")
    case True
    with assms(1,3,4) show ?thesis by (simp add: tag_excluded_def)
  next
    case False
    with Cons.prems have "it \<in> set rest" by simp
    from Cons.IH [OF this] show ?thesis
      by (auto split: sum.splits bool.splits)
  qed
qed

lemma extract_B_loop_missing_tags:
  assumes "t \<noteq> []" and "it \<in> set data" and "it_type it = lit ''line''" and "it_tags it = None"
  shows "\<exists>e. extract_B_loop data scales (Some t) names col = Inl e"
  using assms(2)
proof (induction data arbitrary: names col)
  case Nil
  then show ?case by simp
next
  case (Cons d rest)
  show ?case
  proof (cases "d = it")
    case True
    with assms(1,3,4) show ?thesis by (simp add: tag_excluded_def)
  next
    case False
    with Cons.prems have "it \<in> set rest" by simp
    from Cons.IH [OF this] show ?thesis
      by (auto split: sum.splits bool.splits)
  qed
qed

lemma extract_loop_ignores_tags:
  "tag = None \<or> tag = Some [] \<Longrightarrow>
     extract_loop (map (\<lambda>it. it\<lparr>it_tags := g it\<rparr>) data) axes tag col = extract_loop data axes tag col"
  by (induction data arbitrary: col) (auto simp: tag_excluded_def split: sum.splits)

lemma extract_B_loop_ignores_tags:
  "tag = None \<or> tag = Some [] \<Longrightarrow>
     extract_B_loop (map (\<lambda>it. it\<lparr>it_tags := g it\<rparr>) data) scales tag names col =
     extract_B_loop data scales tag names col"
  by (induction data arbitrary: names col) (auto simp: tag_excluded_def split: sum.splits)

text \<open>
  Claim C10. With a non-empty tag filter both passes read \<^verbatim>\<open>item["tags"]\<close> of every
  annotation of their type: an annotation of that type without the key raises
  \<^verbatim>\<open>KeyError\<close> when the loop reaches it, whatever the calibrations are, so the pass
  returns only if every such annotation carries tags. With no filter (\<^verbatim>\<open>None\<close> or the
  empty string) the result does not depend on the tags of any annotation.
\<close>

theorem tags_read_only_under_filter:
  "(t \<noteq> [] \<and> it_type it = lit ''point'' \<and> it_tags it = None \<and>
      extract_A pre axes (Some t) = Inr col1 \<longrightarrow>
      extract_A (pre @ it # rest) axes (Some t) = Inl KeyError) \<and>
   (t \<noteq> [] \<and> it \<in> set data \<and> it_type it = lit ''point'' \<and> it_tags it = None \<longrightarrow>
      (\<exists>e. extract_A data axes (Some t) = Inl e)) \<and>
   (t \<noteq> [] \<and> it_type it = lit ''line'' \<and> it_tags it = None \<and>
      extract_B pre scales (Some t) = Inr (names1, col1) \<longrightarrow>
      extract_B (pre @ it # rest) scales (Some t) = Inl KeyError) \<and>
   (t \<noteq> [] \<and> it \<in> set data \<and> it_type it = lit ''line'' \<and> it_tags it = None \<longrightarrow>
      (\<exists>e. extract_B data scales (Some t) = Inl e)) \<and>
   (tag = None \<or> tag = Some [] \<longrightarrow>
      extract_A (map (\<lambda>it. it\<lparr>it_tags := g it\<rparr>) data) axes tag = extract_A data axes tag \<and>
      extract_B (map (\<lambda>it. it\<lparr>it_tags := g it\<rparr>) data) scales tag = extract_B data scales tag)"
proof (intro conjI impI)
  assume a: "t \<noteq> [] \<and> it_type it = lit ''point'' \<and> it_tags it = None \<and>
      extract_A pre axes (Some t) = Inr col1"
  then have "extract_loop pre axes (Some t) (col_init (map ax_name axes)) = Inr col1"
    by (simp add: extract_A_def)
  from extract_loop_append [OF this, of "it # rest"] a
  show "extract_A (pre @ it # rest) axes (Some t) = Inl KeyError"
    by (simp add: extract_A_def tag_excluded_def)
next
  assume "t \<noteq> [] \<and> it \<in> set data \<and> it_type it = lit ''point'' \<and> it_tags it = None"
  then show "\<exists>e. extract_A data axes (Some t) = Inl e"
    unfolding extract_A_def using extract_loop_missing_tags [of t it data] by blast
next
  assume a: "t \<noteq> [] \<and> it_type it = lit ''line'' \<and> it_tags it = None \<and>
      extract_B pre scales (Some t) = Inr (names1, col1)"
  then have "extract_B_loop pre scales (Some t) [] (col_init (map sc_name scales)) = Inr (names1, col1)"
    by (simp add: extract_B_def)
  from extract_B_loop_append [OF this, of "it # rest"] a
  show "extract_B (pre @ it # rest) scales (Some t) = Inl KeyError"
    by (simp add: extract_B_def tag_excluded_def)
next
  assume "t \<noteq> [] \<and> it \<in> set data \<and> it_type it = lit ''line'' \<and> it_tags it = None"
  then show "\<exists>e. extract_B data scales (Some t) = Inl e"
    unfolding extract_B_def using extract_B_loop_missing_tags [of t it data] by blast
next
  assume "tag = None \<or> tag = Some []"
  then show "extract_A (map (\<lambda>it. it\<lparr>it_tags := g it\<rparr>) data) axes tag = extract_A data axes tag"
    by (simp add: extract_A_def extract_loop_ignores_tags)
next
  assume "tag = None \<or> tag = Some []"
  then show "extract_B (map (\<lambda>it. it\<lparr>it_tags := g it\<rparr>) data) scales tag = extract_B data scales tag"
    by (simp add: extract_B_def extract_B_loop_ignores_tags)
qed

theorem tags_read_only_under_filter_witness:
  "extract_A [point_at (PyInt 5) (PyInt 0)] [] (Some (lit ''A'')) = Inl KeyError \<and>
   extract_A [(point_at (PyInt 5) (PyInt 0))\<lparr>it_tags := Some [lit ''A'']\<rparr>] []
     (Some (lit ''A'')) = Inr [] \<and>
   extract_A [point_at (PyInt 5) (PyInt 0)] [] (Some []) = Inr []"
proof -
  have h: "lit ''A'' \<noteq> [] \<and> it_type (point_at (PyInt 5) (PyInt 0)) = lit ''point'' \<and>
      it_tags (point_at (PyInt 5) (PyInt 0)) = None \<and>
      extract_A [] [] (Some (lit ''A'')) = Inr []"
    by (simp add: point_at_def extract_A_def col_init_def lit_def)
  from tags_read_only_under_filter [where t = "lit ''A''" and it = "point_at (PyInt 5) (PyInt 0)"
      and pre = "[]" and axes = "[]" and ?col1.0 = "[]" and rest = "[]"] h
  have 1: "extract_A [point_at (PyInt 5) (PyInt 0)] [] (Some (lit ''A'')) = Inl KeyError"
    by simp
  have 2: "extract_A [(point_at (PyInt 5) (PyInt 0))\<lparr>it_tags := Some [lit ''A'']\<rparr>] []
      (Some (lit ''A'')) = Inr []"
    by (simp add: point_at_def extract_A_def col_init_def tag_excluded_def extract_axes_def
        lit_def)
  have 3: "extract_A [point_at (PyInt 5) (PyInt 0)] [] (Some []) = Inr []"
    by (simp add: point_at_def extract_A_def col_init_def tag_excluded_def extract_axes_def
        lit_def)
  from 1 2 3 show ?thesis by simp
qed

section \<open>Commas in the exported fields\<close>

lemma scale_match_a_b: "scale_match (lit ''a,b'') = None"
  by (simp add: regex_eval)

text \<open>
  A calibration name is a run of \<^verbatim>\<open>\w\<close>, which excludes the comma: on the header
  names, the only strings \<^verbatim>\<open>export\<close> passes to it, \<^verbatim>\<open>csv_sanitize\<close> changes nothing.
\<close>

lemma csv_sanitize_word: "list_all re_w n \<Longrightarrow> csv_sanitize n = n"
proof -
  assume a: "list_all re_w n"
  have "\<not> re_w 44" by (simp add: re_w_def)
  with a have "44 \<notin> set n" by (auto simp: list_all_iff)
  then show ?thesis by (simp add: csv_sanitize_def)
qed

lemma getscales_S_10_a_b:
  "getscales [line_named ''S: 10'' (PyInt 0, PyInt 0) (PyInt 5, PyInt 0), line_named ''a,b'' (PyInt 0, PyInt 0) (PyInt 3, PyInt 4)] =
     Inr [\<lparr>sc_name = lit ''S'', sc_r0 = (PyInt 0, PyInt 0), sc_r1 = (PyInt 5, PyInt 0),
       sc_delta = (PyInt 5, PyInt 0), sc_l2 = PyInt 25, sc_l = Fin 5, sc_physlen = Fin 10,
       sc_unitperpx = Fin 2\<rparr>]"
  by (simp add: getscales_def getscales_item_def line_named_def scale_match_S_10 scale_match_a_b
      float_py_10 Axis_B_init_def num_eval sqrt_25)

lemma extract_B_S_10_a_b:
  "extract_B [line_named ''S: 10'' (PyInt 0, PyInt 0) (PyInt 5, PyInt 0), line_named ''a,b'' (PyInt 0, PyInt 0) (PyInt 3, PyInt 4)]
     [\<lparr>sc_name = lit ''S'', sc_r0 = (PyInt 0, PyInt 0), sc_r1 = (PyInt 5, PyInt 0),
       sc_delta = (PyInt 5, PyInt 0), sc_l2 = PyInt 25, sc_l = Fin 5, sc_physlen = Fin 10,
       sc_unitperpx = Fin 2\<rparr>] None =
     Inr ([lit ''S: 10'', lit ''a,b''], [(lit ''S'', [Fin 10, Fin 10])])"
  by (simp add: line_named_def extract_B_def col_init_def tag_excluded_def
      extract_scales_def measure_line_def col_append_def num_eval sqrt_25)

lemma export_B_S_10_a_b:
  "export_B [] [lit ''S: 10'', lit ''a,b''] [(lit ''S'', [Fin 10, Fin 10])] =
     (chars (lit ''name,S\<newline>S: 10,'') @ [Num (Fin 10)] @ chars (lit ''\<newline>a,b,'') @
      [Num (Fin 10)] @ chars (lit ''\<newline>''), None)"
  by (simp add: export_B_def csv_sanitize_def chars_def upt_rec lit_def)

text \<open>
  Claim C9 at a line named \<^verbatim>\<open>a,b\<close> in pipeline B: \<^verbatim>\<open>export\<close> writes the name of the
  row as it is, \<^verbatim>\<open>a,b,\<close> followed by the value, where \<^verbatim>\<open>csv_sanitize\<close> would have
  given \<^verbatim>\<open>"a,b"\<close>.
\<close>

theorem row_name_not_quoted:
  "getscales [line_named ''S: 10'' (PyInt 0, PyInt 0) (PyInt 5, PyInt 0), line_named ''a,b'' (PyInt 0, PyInt 0) (PyInt 3, PyInt 4)] =
     Inr [\<lparr>sc_name = lit ''S'', sc_r0 = (PyInt 0, PyInt 0), sc_r1 = (PyInt 5, PyInt 0),
       sc_delta = (PyInt 5, PyInt 0), sc_l2 = PyInt 25, sc_l = Fin 5, sc_physlen = Fin 10,
       sc_unitperpx = Fin 2\<rparr>] \<and>
   extract_B [line_named ''S: 10'' (PyInt 0, PyInt 0) (PyInt 5, PyInt 0), line_named ''a,b'' (PyInt 0, PyInt 0) (PyInt 3, PyInt 4)]
     [\<lparr>sc_name = lit ''S'', sc_r0 = (PyInt 0, PyInt 0), sc_r1 = (PyInt 5, PyInt 0),
       sc_delta = (PyInt 5, PyInt 0), sc_l2 = PyInt 25, sc_l = Fin 5, sc_physlen = Fin 10,
       sc_unitperpx = Fin 2\<rparr>] None =
     Inr ([lit ''S: 10'', lit ''a,b''], [(lit ''S'', [Fin 10, Fin 10])]) \<and>
   export_B [] [lit ''S: 10'', lit ''a,b''] [(lit ''S'', [Fin 10, Fin 10])] =
     (chars (lit ''name,S\<newline>S: 10,'') @ [Num (Fin 10)] @ chars (lit ''\<newline>a,b,'') @
      [Num (Fin 10)] @ chars (lit ''\<newline>''), None) \<and>
   csv_sanitize (lit ''a,b'') = [34] @ lit ''a,b'' @ [34]"
  by (simp add: getscales_S_10_a_b extract_B_S_10_a_b export_B_S_10_a_b)
    (simp add: csv_sanitize_def lit_def)

end
